theory Spec2Isabelle
  imports Main "HOL-Library.Monad_Syntax"
begin

section \<open>Strings and keyword tests\<close>

text \<open>
  A Python \<open>str\<close> is a sequence of Unicode code points; it is modelled as the list of
  those code points. The keyword tables of the scraper are Devanagari words, written
  here by their code points, in the order of the source.
\<close>

type_synonym str = "nat list"

text \<open>\<open>text.startswith(kw)\<close>\<close>

fun startswith :: "str \<Rightarrow> str \<Rightarrow> bool" where
  "startswith t [] = True"
| "startswith [] (k # ks) = False"
| "startswith (c # cs) (k # ks) = (c = k \<and> startswith cs ks)"

text \<open>\<open>kw in text\<close>: \<open>kw\<close> occurs in \<open>text\<close> as a contiguous substring.\<close>

fun str_in :: "str \<Rightarrow> str \<Rightarrow> bool" where
  "str_in kw [] = (kw = [])"
| "str_in kw (c # cs) = (startswith (c # cs) kw \<or> str_in kw cs)"

text \<open>\<open>any(kw in text for kw in kws)\<close>\<close>

definition any_in :: "str list \<Rightarrow> str \<Rightarrow> bool" where
  "any_in kws t = list_ex (\<lambda>kw. str_in kw t) kws"

text \<open>\<open>any(kw == text for kw in kws)\<close>\<close>

definition any_eq :: "str list \<Rightarrow> str \<Rightarrow> bool" where
  "any_eq kws t = list_ex (\<lambda>kw. kw = t) kws"

text \<open>\<open>any(text.startswith(kw) for kw in kws)\<close>\<close>

definition any_prefix :: "str list \<Rightarrow> str \<Rightarrow> bool" where
  "any_prefix kws t = list_ex (\<lambda>kw. startswith t kw) kws"

section \<open>Keyword tables\<close>

text \<open>
  Each scraping procedure declares its own tables \<open>KEYWORDS_2\<close> .. \<open>KEYWORDS_10\<close>.
  \<open>KEYWORDS_3\<close> (petitioner words) and \<open>KEYWORDS_8\<close> (judge words) are the same in all
  five procedures. The tables of \<open>scrape_case_details_2015_to_2044\<close> that differ from the
  later ones carry the suffix \<open>_2015\<close>; the four later procedures share the others.
  \<open>KEYWORDS_2\<close>: citation prefixes; \<open>KEYWORDS_4\<close>: respondent words; \<open>KEYWORDS_5\<close>:
  subject words; \<open>KEYWORDS_6\<close>: bench words; \<open>KEYWORDS_7\<close>: order and verdict words;
  \<open>KEYWORDS_9\<close>: versus markers; \<open>KEYWORDS_10\<close>: case-number codes.
\<close>

definition KEYWORDS_2_2015 :: "str list" where
  "KEYWORDS_2_2015 = [
    [40, 2346, 2381, 2352, 2325, 2352, 2339, 32, 2344, 2306],
    [40, 2346, 2381, 2352, 2325, 2366, 2352, 2339, 32, 2344, 2306, 46],
    [2415, 2346, 2381, 2352, 2325, 2352, 2339, 32, 2344, 2306, 2404],
    [40, 2346, 2381, 2352, 2325, 2352, 2339],
    [40, 2346, 2381, 2352, 32, 2344, 2306, 46],
    [40, 32, 2346, 2381, 2352, 46, 32, 2344, 2306],
    [40, 2346, 2381, 2352, 46, 2344, 2306],
    [40, 2346, 2381, 2352, 46, 32, 2344, 2306],
    [40, 32, 2346, 2381, 2352, 2325, 2352, 2339, 32, 2344, 2306, 46],
    [40, 32, 2346, 2381, 2352, 2325, 2352, 2339, 2344],
    [40, 32, 2346, 2381, 2352, 46, 2344, 2306, 46],
    [40, 32, 2346, 2381, 2352, 32, 46, 32, 2344, 2306, 32, 46],
    [40, 32, 2346, 32, 2381, 2352, 32, 46, 32, 2344, 2306, 32, 46],
    [40, 2346, 2381, 2352, 2352, 2325, 2339, 32, 2344, 2306, 46],
    [40, 2346, 2381, 2352, 2325, 2352, 2366, 2339, 32, 2344, 2306, 46]]"

definition KEYWORDS_4_2015 :: "str list" where
  "KEYWORDS_4_2015 = [
    [2357, 2367, 2346, 2325, 2381, 2359, 2368],
    [2346, 2381, 2352, 2340, 2367, 2357, 2366, 2342, 2368],
    [2346, 2381, 2352, 2340, 2381, 2351, 2352, 2381, 2341, 2368],
    [2348, 2367, 2346, 2325, 2381, 2359, 2368],
    [2357, 2367, 2346, 2325, 2381, 2359, 2368, 32, 2307],
    [2346, 2367, 2346, 2325, 2381, 2359, 2368],
    [2357, 2367, 2352, 2369, 2342, 2381, 2343],
    [2346, 2381, 2352, 2340, 2381, 2351, 2366, 2352, 2381, 2341, 2368],
    [2357, 2367, 2352, 2370, 2342, 2381, 2343],
    [2348, 2367, 2352, 2370, 2342, 2381, 2343],
    [2357, 2367, 2346, 2325, 2381, 2359],
    [2352, 2375, 2360, 2381, 2346, 2379, 2339, 2381, 2337, 2375, 2339, 2381, 2335],
    [2352, 2375, 2360, 2381, 2346, 2379, 2344, 2381, 2337, 2375, 2344, 2381, 2335]]"

definition KEYWORDS_5_2015 :: "str list" where
  "KEYWORDS_5_2015 = [
    [2357, 2367, 2359, 2351],
    [2350, 2369, 2342, 2381, 2342, 2366],
    [2348, 2367, 2359, 2351],
    [2350, 2370, 2342, 2381, 2342, 2366],
    [2350, 2369, 2342, 2381, 2342],
    [2350, 2342, 2381, 2342, 2366],
    [2357, 2367, 2346, 2325, 2381, 2359],
    [2350, 2369, 2342, 2381, 2343, 2366]]"

definition KEYWORDS_6_2015 :: "str list" where
  "KEYWORDS_6_2015 = [
    [2311, 2332, 2354, 2366, 2360],
    [2311, 2332, 2366, 2354, 2366, 2360],
    [2311, 2332, 2354, 2366, 2358],
    [2348, 2375, 2334, 2381, 2330]]"

definition KEYWORDS_7_2015 :: "str list" where
  "KEYWORDS_7_2015 = [
    [2310, 2342, 2375, 2358],
    [2347, 2376, 2360, 2354, 2366],
    [2347, 2376, 2360, 2354, 2350, 2366],
    [2344, 2367, 2352, 2381, 2339, 2351],
    [2347, 2376, 32, 2360, 2354, 2366]]"

definition KEYWORDS_2 :: "str list" where
  "KEYWORDS_2 = [
    [2346, 2381, 2352, 2325, 2352, 2339, 32, 2344, 2306, 46],
    [40, 2346, 2381, 2352, 2325, 2352, 2339, 32, 2344, 2306],
    [40, 2346, 2381, 2352, 2325, 2366, 2352, 2339, 32, 2344, 2306, 46],
    [2415, 2346, 2381, 2352, 2325, 2352, 2339, 32, 2344, 2306, 2404],
    [40, 2346, 2381, 2352, 2325, 2352, 2339],
    [40, 2346, 2381, 2352, 32, 2344, 2306, 46],
    [40, 32, 2346, 2381, 2352, 46, 32, 2344, 2306],
    [40, 2346, 2381, 2352, 46, 2344, 2306],
    [40, 2346, 2381, 2352, 46, 32, 2344, 2306],
    [40, 32, 2346, 2381, 2352, 2325, 2352, 2339, 32, 2344, 2306, 46],
    [40, 32, 2346, 2381, 2352, 2325, 2352, 2339, 2344],
    [40, 32, 2346, 2381, 2352, 46, 2344, 2306, 46],
    [40, 32, 2346, 2381, 2352, 32, 46, 32, 2344, 2306, 32, 46],
    [40, 32, 2346, 32, 2381, 2352, 32, 46, 32, 2344, 2306, 32, 46],
    [40, 2346, 2381, 2352, 2352, 2325, 2339, 32, 2344, 2306, 46],
    [40, 2346, 2381, 2352, 2325, 2352, 2366, 2339, 32, 2344, 2306, 46]]"

definition KEYWORDS_3 :: "str list" where
  "KEYWORDS_3 = [
    [2344, 2367, 2357, 2375, 2342, 2325],
    [2357, 2366, 2342, 2368],
    [2346, 2369, 2344, 2352, 2366, 2357, 2375, 2342, 2325],
    [2344, 2367, 2348, 2375, 2342, 2325],
    [2346, 2369, 2344, 2352, 2366, 2357, 2342, 2375, 2325],
    [2344, 2367, 2357, 2375, 2342, 2367, 2325, 2366],
    [2344, 2367, 2357, 2375, 2342, 2368, 2325, 2366],
    [2344, 2367, 2357, 2342, 2375, 2325],
    [2344, 32, 2367, 32, 2357, 2375, 2342, 2325, 32, 2307],
    [2344, 2367, 32, 2357, 2375, 2342, 2325, 32, 2307],
    [2346, 2369, 2344, 2352, 2366, 2357, 2375, 2342, 2344],
    [2346, 2369, 2344, 2352, 2357, 2375, 2342, 2367, 2325, 2366],
    [2346, 2369, 2344, 2352, 2366, 2357, 2375, 2342, 2367, 2325, 2366],
    [2346, 2369, 2344, 2352, 2366, 2357, 2375, 2342, 2368, 2325, 2366],
    [2348, 2366, 2342, 2367],
    [2346, 2369, 2344, 2352, 2366, 2348, 2375, 2342, 2325],
    [2346, 2381, 2352, 2340, 2367, 2348, 2366, 2342, 2368],
    [2346, 2369, 2344, 2352, 2366, 2357, 2375, 2325],
    [2309, 2346, 2368, 2354, 2366, 2335],
    [2344, 2367, 2357, 2375, 2342, 2344, 2325],
    [2313, 2332, 2369, 2352, 2357, 2366, 2354, 2366],
    [2309, 2346, 2367, 2354, 2348, 2366, 2335],
    [2309, 2346, 2367, 2354, 2366, 2335]]"

definition KEYWORDS_4 :: "str list" where
  "KEYWORDS_4 = [
    [2357, 2367, 2346, 2325, 2381, 2359, 2368],
    [2346, 2381, 2352, 2340, 2367, 2357, 2366, 2342, 2368],
    [2346, 2381, 2352, 2340, 2381, 2351, 2352, 2381, 2341, 2368],
    [2348, 2367, 2346, 2325, 2381, 2359, 2368],
    [2357, 2367, 2346, 2325, 2381, 2359, 2368, 32, 2307],
    [2346, 2367, 2346, 2325, 2381, 2359, 2368],
    [2346, 2381, 2352, 2340, 2381, 2351, 2366, 2352, 2381, 2341, 2368],
    [2357, 2367, 2346, 2325, 2381, 2359],
    [2352, 2375, 2360, 2381, 2346, 2379, 2339, 2381, 2337, 2375, 2339, 2381, 2335],
    [2352, 2375, 2360, 2381, 2346, 2379, 2344, 2381, 2337, 2375, 2344, 2381, 2335],
    [2346, 2381, 2352, 2340, 2381, 2351, 2341, 2368]]"

definition KEYWORDS_5 :: "str list" where
  "KEYWORDS_5 = [
    [2357, 2367, 2359, 2351],
    [2350, 2369, 2342, 2381, 2342, 2366],
    [2348, 2367, 2359, 2351],
    [2350, 2370, 2342, 2381, 2342, 2366],
    [2350, 2369, 2342, 2381, 2342],
    [2350, 2342, 2381, 2342, 2366],
    [2357, 2367, 2346, 2325, 2381, 2359],
    [2350, 2369, 2342, 2381, 2343, 2366],
    [2350, 2369, 2342, 2381, 32, 2342, 2366]]"

definition KEYWORDS_6 :: "str list" where
  "KEYWORDS_6 = [
    [2309, 2342, 2366, 2354, 2340],
    [2311, 2332, 2354, 2366, 2360],
    [2311, 2332, 2366, 2354, 2366, 2360],
    [2311, 2332, 2354, 2366, 2358],
    [2348, 2375, 2334, 2381, 2330]]"

definition KEYWORDS_7 :: "str list" where
  "KEYWORDS_7 = [
    [2310, 2342, 2375, 2358],
    [2347, 2376, 2360, 2354, 2366],
    [2347, 2376, 2360, 2354, 2350, 2366],
    [2344, 2367, 2352, 2381, 2339, 2351],
    [2347, 2376, 32, 2360, 2354, 2366],
    [2350, 2369, 2342, 2381, 2342, 2366]]"

definition KEYWORDS_8 :: "str list" where
  "KEYWORDS_8 = [
    [2344, 2381, 2351, 2366, 2351, 2366, 2343, 2368, 2358],
    [2350, 2366, 2344, 2344, 2368, 2351],
    [2344, 2381, 2351, 2366, 2351, 2343, 2368, 2358],
    [2344, 2381, 2351, 2366, 2351, 2366, 2343, 2368, 2360],
    [2344, 2381, 2351, 2351, 2366, 2343, 2368, 2358],
    [2344, 2381, 2351, 2366, 2351, 2366, 2343, 2367, 2358],
    [2344, 2381, 2351, 2366, 2351, 2366, 2343, 2368],
    [2344, 2381, 2351, 2366, 2344, 2366, 2351, 2343, 2368, 2358],
    [2344, 2351, 2366, 2351, 2366, 2343, 2368, 2358],
    [2344, 2381, 2351, 2366, 2351, 2366, 2343, 2343, 2367, 2358],
    [2344, 2351, 2366, 2343, 2358]]"

definition KEYWORDS_9 :: "str list" where
  "KEYWORDS_9 = [
    [2357, 2367, 2352, 2370, 2342, 2381, 2343],
    [2348, 2367, 2352, 2370, 2342, 2381, 2343],
    [2357, 2367, 2352, 2369, 2342, 2381, 2343],
    [2348, 2367, 2352, 2369, 2342, 2381, 2343]]"

definition KEYWORDS_10 :: "str list" where
  "KEYWORDS_10 = [
    [65, 80],
    [70, 78],
    [82, 69],
    [82, 73],
    [76, 69],
    [82, 86],
    [78, 70],
    [67, 73],
    [67, 82],
    [82, 67],
    [83, 65],
    [77, 83],
    [78, 68],
    [82, 66],
    [67, 70],
    [68, 70],
    [82, 70],
    [87, 79],
    [87, 72],
    [87, 83],
    [87, 70],
    [87, 67],
    [67, 67],
    [69, 67]]"

text \<open>String literals used inline by the procedures.\<close>

definition NIRNAYA_NO :: str where
  "NIRNAYA_NO = [2344, 2367, 2352, 2381, 2339, 2351, 32, 2344, 2306, 46]"

definition MITI :: str where
  "MITI = [2350, 2367, 2340, 2367]"

definition MITI_2 :: str where
  "MITI_2 = [2350, 2367, 2340, 2368]"

definition FAISALA :: str where
  "FAISALA = [2347, 2376, 2360, 2354, 2366]"

definition ADESH :: str where
  "ADESH = [2310, 2342, 2375, 2358]"

definition FAISALA_VISARGA :: str where
  "FAISALA_VISARGA = [2347, 2376, 2360, 2354, 2366, 2307]"

definition NYAYADHISH :: str where
  "NYAYADHISH = [2344, 2381, 2351, 2366, 2351, 2366, 2343, 2368, 2358]"

definition MANANIYA :: str where
  "MANANIYA = [2350, 2366, 2344, 2344, 2368, 2351]"

definition IJLAS :: str where
  "IJLAS = [2311, 2332, 2354, 2366, 2360]"

definition IJALAS :: str where
  "IJALAS = [2311, 2332, 2366, 2354, 2366, 2360]"

definition FAISALMA :: str where
  "FAISALMA = [2347, 2376, 2360, 2354, 2350, 2366]"

definition NIRNAYA :: str where
  "NIRNAYA = [2344, 2367, 2352, 2381, 2339, 2351]"

definition BISHAYA :: str where
  "BISHAYA = [2357, 2367, 2359, 2351]"

definition MUDDA :: str where
  "MUDDA = [2350, 2369, 2342, 2381, 2342, 2366]"

definition BISHAYA_2 :: str where
  "BISHAYA_2 = [2348, 2367, 2359, 2351]"

definition MUDDA_VISARGA :: str where
  "MUDDA_VISARGA = [2350, 2370, 2342, 2381, 2342, 2366, 2307]"

text \<open>The section sign, \<open>N/A\<close> and the single space.\<close>

definition SECTION_SIGN :: str where
  "SECTION_SIGN = [167]"

definition NA :: str where
  "NA = [78, 47, 65]"

definition SPACE :: str where
  "SPACE = [32]"

text \<open>The three exact tokens that start the holding: \<open>["faisala", "adesh", "faisala:"]\<close>.\<close>

definition HOLDING_TOKENS :: "str list" where
  "HOLDING_TOKENS = [FAISALA, ADESH, FAISALA_VISARGA]"

section \<open>\<open>from_each_page\<close>: case links of a results page\<close>

text \<open>
  An anchor element is modelled by the value of \<open>link.get('href')\<close>: \<open>None\<close> when the
  attribute is missing. \<open>if href\<close> holds for a string that is present and not empty.
\<close>

type_synonym anchor = "str option"

definition truthy :: "anchor \<Rightarrow> bool" where
  "truthy a = (case a of None \<Rightarrow> False | Some h \<Rightarrow> h \<noteq> [])"

text \<open>\<open>href and "#" in href\<close>; the code point of \<open>#\<close> is 35.\<close>

definition is_hash :: "anchor \<Rightarrow> bool" where
  "is_hash a = (case a of None \<Rightarrow> False | Some h \<Rightarrow> h \<noteq> [] \<and> str_in [35] h)"

text \<open>
  The \<open>while\<close> loop of \<open>from_each_page\<close>. At an anchor whose href contains \<open>#\<close> the index
  moves to the next anchor, whose href is appended to \<open>li\<close> when it is truthy; the index
  is not moved again, so that next anchor is itself examined by the following round.
  The recursion is on the anchors from index \<open>i\<close> on.
\<close>

fun collect_links :: "anchor list \<Rightarrow> str list" where
  "collect_links [] = []"
| "collect_links (a # rest) =
     (if is_hash a then
        (case rest of
           [] \<Rightarrow> []
         | b # _ \<Rightarrow> (if truthy b then the b # collect_links rest else collect_links rest))
      else collect_links rest)"

text \<open>
  \<open>list(dict.fromkeys(li))\<close>: the keys of a dict keep their insertion order, and
  inserting a key that is present changes nothing.
\<close>

definition dict_fromkeys :: "'a list \<Rightarrow> 'a list" where
  "dict_fromkeys li = fold (\<lambda>k keys. if k \<in> set keys then keys else keys @ [k]) li []"

definition from_each_page :: "anchor list \<Rightarrow> str list" where
  "from_each_page links =
     (let li = collect_links links in
      if length li > 1 then dict_fromkeys li else [])"

text \<open>
  The reading of "deduplicated with first-occurrence order preserved": keep the head,
  delete its later copies, go on with the rest.
\<close>

fun first_occurrences :: "'a list \<Rightarrow> 'a list" where
  "first_occurrences [] = []"
| "first_occurrences (x # xs) = x # first_occurrences (removeAll x xs)"

section \<open>\<open>determine_scraper_method\<close>: the procedure of a year\<close>

datatype era = E2015_to_2044 | E2045_to_2050 | E2051_to_2061 | E2062_to_2072
  | E2073_to_2080_and_beyond

datatype error = ValueError

text \<open>
  \<open>eng_sal\<close> is the year after \<open>int(nepali_sal_to_english_sal(sal))\<close>;
  \<open>latest_nepali_year\<close> is \<open>nepali_datetime.date.today().year\<close>, read from the clock
  and taken as a parameter.
\<close>

definition determine_scraper_method :: "int \<Rightarrow> int \<Rightarrow> error + era" where
  "determine_scraper_method latest_nepali_year eng_sal =
     (if 2015 \<le> eng_sal \<and> eng_sal \<le> 2044 then Inr E2015_to_2044
      else if 2045 \<le> eng_sal \<and> eng_sal \<le> 2050 then Inr E2045_to_2050
      else if 2051 \<le> eng_sal \<and> eng_sal \<le> 2061 then Inr E2051_to_2061
      else if 2062 \<le> eng_sal \<and> eng_sal \<le> 2072 then Inr E2062_to_2072
      else if 2073 \<le> eng_sal \<and> eng_sal < latest_nepali_year then Inr E2073_to_2080_and_beyond
      else Inl ValueError)"

text \<open>
  \<open>scrape_case_details_generic\<close> calls the selected procedure and turns the
  \<open>ValueError\<close> into the result \<open>False\<close>. The five procedures are the parameter
  \<open>procs\<close>; each works on the state \<open>'s\<close> of the scraper (database and files) and
  returns its success flag with the new state.
\<close>

definition scrape_case_details_generic ::
  "int \<Rightarrow> (era \<Rightarrow> 's \<Rightarrow> bool \<times> 's) \<Rightarrow> int \<Rightarrow> 's \<Rightarrow> bool \<times> 's" where
  "scrape_case_details_generic latest_nepali_year procs eng_sal s =
     (case determine_scraper_method latest_nepali_year eng_sal of
        Inr e \<Rightarrow> procs e s
      | Inl ValueError \<Rightarrow> (False, s))"

text \<open>
  The five year ranges, both bounds inclusive. The last one ends at the year before
  the current one.
\<close>

fun era_range :: "int \<Rightarrow> era \<Rightarrow> int \<times> int" where
  "era_range latest E2015_to_2044 = (2015, 2044)"
| "era_range latest E2045_to_2050 = (2045, 2050)"
| "era_range latest E2051_to_2061 = (2051, 2061)"
| "era_range latest E2062_to_2072 = (2062, 2072)"
| "era_range latest E2073_to_2080_and_beyond = (2073, latest - 1)"

definition in_era :: "int \<Rightarrow> era \<Rightarrow> int \<Rightarrow> bool" where
  "in_era latest e y = (fst (era_range latest e) \<le> y \<and> y \<le> snd (era_range latest e))"

definition all_eras :: "era list" where
  "all_eras = [E2015_to_2044, E2045_to_2050, E2051_to_2061, E2062_to_2072,
     E2073_to_2080_and_beyond]"

section \<open>Blocks\<close>

text \<open>
  \<open>tags = div_tag.find_all(['h1', 'p'])\<close> is the block sequence. Of a tag the procedures
  read \<open>get_text(separator=' ', strip=True)\<close> (here \<open>tag_text\<close>),
  \<open>get_text(strip=True)\<close> (here \<open>tag_text_plain\<close>, read by the last procedure only) and
  the \<open>li\<close> texts of the \<open>ul\<close> and \<open>ol\<close> elements that directly follow the tag (here
  \<open>tag_items\<close>, in document order). A tag may have an empty text.
\<close>

record block =
  tag_text :: str
  tag_text_plain :: str
  tag_items :: "str list"

text \<open>A tag with the given text and no list after it.\<close>

definition blk :: "str \<Rightarrow> block" where
  "blk t = \<lparr>tag_text = t, tag_text_plain = t, tag_items = []\<rparr>"

section \<open>Citations and holding\<close>

text \<open>
  The state of the last loop of every procedure: the citation list \<open>prakarans\<close>, the
  pending text \<open>prev\<close>, the holding list \<open>tahar\<close> and the flag \<open>temp_flag_tahar\<close>.
\<close>

record seg =
  prakarans :: "str list"
  prev :: str
  tahar :: "str list"
  temp_flag_tahar :: bool

definition seg_init :: seg where
  "seg_init = \<lparr>prakarans = [], prev = [], tahar = [], temp_flag_tahar = False\<rparr>"

text \<open>\<open>prev = prev + " " + text if prev else text\<close>\<close>

definition join_prev :: "str \<Rightarrow> str \<Rightarrow> str" where
  "join_prev p t = (if p \<noteq> [] then p @ SPACE @ t else t)"

text \<open>The part of the loop body that appends to \<open>tahar\<close>, the same for a tag and an item.\<close>

definition seg_tahar :: "seg \<Rightarrow> str \<Rightarrow> seg" where
  "seg_tahar s t =
     (if t \<in> set HOLDING_TOKENS \<or> temp_flag_tahar s
      then s\<lparr>temp_flag_tahar := True, tahar := tahar s @ [t]\<rparr>
      else s)"

text \<open>The body of the loop for the text of a tag (\<open>if text:\<close> ...).\<close>

definition seg_text :: "str list \<Rightarrow> seg \<Rightarrow> str \<Rightarrow> seg" where
  "seg_text k2 s t =
     (if t = [] then s
      else
        let s1 =
          (if str_in SECTION_SIGN t \<or> any_prefix k2 t \<or> FAISALA = t \<or> ADESH = t
              \<or> FAISALA_VISARGA = t
           then
             let a = (if any_prefix k2 t
                      then s\<lparr>prakarans := prakarans s @ (if prev s \<noteq> [] then [prev s] else []) @ [t],
                             prev := []\<rparr>
                      else s);
                 b = (if str_in SECTION_SIGN t then a\<lparr>prakarans := prakarans a @ [t]\<rparr> else a)
             in (if FAISALA = t \<or> ADESH = t \<or> FAISALA_VISARGA = t
                 then (if prakarans b = [] then b\<lparr>prakarans := prakarans b @ [prev b]\<rparr> else b)
                 else b)
           else s\<lparr>prev := join_prev (prev s) t\<rparr>)
        in seg_tahar s1 t)"

text \<open>The body of the loop for one list item (\<open>if li_text:\<close> ...).\<close>

definition seg_li :: "str list \<Rightarrow> seg \<Rightarrow> str \<Rightarrow> seg" where
  "seg_li k2 s t =
     (if t = [] then s
      else
        let s1 =
          (if any_prefix k2 t
           then s\<lparr>prakarans := prakarans s @ (if prev s \<noteq> [] then [prev s] else []) @ [t],
                  prev := []\<rparr>
           else s\<lparr>prev := join_prev (prev s) t\<rparr>)
        in seg_tahar s1 t)"

fun seg_items :: "str list \<Rightarrow> seg \<Rightarrow> str list \<Rightarrow> seg" where
  "seg_items k2 s [] = s"
| "seg_items k2 s (li # lis) = seg_items k2 (seg_li k2 s li) lis"

text \<open>\<open>for tag in tags[ind:]\<close>: the text of the tag, then its list items.\<close>

fun seg_tags :: "str list \<Rightarrow> seg \<Rightarrow> block list \<Rightarrow> seg" where
  "seg_tags k2 s [] = s"
| "seg_tags k2 s (b # bs) =
     seg_tags k2 (seg_items k2 (seg_text k2 s (tag_text b)) (tag_items b)) bs"

definition segment :: "str list \<Rightarrow> block list \<Rightarrow> seg" where
  "segment k2 bs = seg_tags k2 seg_init bs"

text \<open>The texts the loop visits, in the order of the visit.\<close>

definition visited :: "block list \<Rightarrow> str list" where
  "visited bs = concat (map (\<lambda>b. tag_text b # tag_items b) bs)"

text \<open>
  A text \<open>t\<close> is kept by a state when it is an entry of the holding list or a substring
  of a citation entry or of the pending text.
\<close>

definition kept :: "seg \<Rightarrow> str \<Rightarrow> bool" where
  "kept s t = (t \<in> set (tahar s) \<or> list_ex (str_in t) (prakarans s @ [prev s]))"

text \<open>What the holding list gains from a run of texts, by the flag at its start.\<close>

fun holding_run :: "bool \<Rightarrow> str list \<Rightarrow> str list" where
  "holding_run started [] = []"
| "holding_run started (t # ts) =
     (if t \<noteq> [] \<and> (t \<in> set HOLDING_TOKENS \<or> started) then t # holding_run True ts
      else holding_run started ts)"


section \<open>The scan state of the extraction procedures\<close>

text \<open>
  A value of the dict \<open>details\<close> under the keys for the case number, the petitioner and
  the respondent is a string or a list of strings.
\<close>

datatype pyval = PStr str | PList "str list"

text \<open>
  The state threaded through the phases of a procedure: the cursor \<open>ind\<close>, the checkpoint
  \<open>temp_ind_32\<close> and the dict \<open>details\<close>, one field for each key, \<open>None\<close> while the key is
  absent. \<open>d_ijlas\<close> is the court (key \<open>ijlas\<close> in the first three procedures,
  \<open>adalat / ijlas\<close> in the last two, each read back under the same key), \<open>d_nyayadhish\<close>
  the judges, \<open>d_adesh_miti\<close> the order date, \<open>d_kes_nambar\<close> the case number,
  \<open>d_bishaya\<close> the subject, \<open>d_niwedak\<close> the petitioner, \<open>d_wipakshi\<close> the respondent,
  \<open>d_prakaran\<close> the citations and \<open>d_thahar\<close> the holding.
\<close>

record scan =
  ind :: nat
  temp_ind_32 :: nat
  d_ijlas :: "str option"
  d_nyayadhish :: "str list option"
  d_adesh_miti :: "str option"
  d_kes_nambar :: "pyval option"
  d_bishaya :: "str option"
  d_niwedak :: "pyval option"
  d_wipakshi :: "pyval option"
  d_prakaran :: "str list option"
  d_thahar :: "str list option"

text \<open>\<open>details = {}\<close>, \<open>ind = 0\<close>, \<open>temp_ind_32 = ind\<close>\<close>

definition scan_init :: scan where
  "scan_init = \<lparr>ind = 0, temp_ind_32 = 0, d_ijlas = None, d_nyayadhish = None,
     d_adesh_miti = None, d_kes_nambar = None, d_bishaya = None, d_niwedak = None,
     d_wipakshi = None, d_prakaran = None, d_thahar = None\<rparr>"

text \<open>
  The step after a phase:
  \<^verbatim>\<open>if ind >= n: ind = temp_ind_32
else: temp_ind_32 = ind\<close>
\<close>

definition checkpoint :: "nat \<Rightarrow> scan \<Rightarrow> scan" where
  "checkpoint n s =
     (if ind s \<ge> n then s\<lparr>ind := temp_ind_32 s\<rparr> else s\<lparr>temp_ind_32 := ind s\<rparr>)"

text \<open>
  The same step as \<open>scrape_case_details_2073_to_2080_and_beyond\<close> writes it after its
  case-number phase, with \<open>ind > n\<close>.
\<close>

definition checkpoint_gt :: "nat \<Rightarrow> scan \<Rightarrow> scan" where
  "checkpoint_gt n s =
     (if ind s > n then s\<lparr>ind := temp_ind_32 s\<rparr> else s\<lparr>temp_ind_32 := ind s\<rparr>)"

text \<open>
  The step as \<open>scrape_case_details_2051_to_2061\<close> writes it after its subject phase, with
  no \<open>else\<close> branch.
\<close>

definition checkpoint_no_else :: "nat \<Rightarrow> scan \<Rightarrow> scan" where
  "checkpoint_no_else n s = (if ind s \<ge> n then s\<lparr>ind := temp_ind_32 s\<rparr> else s)"

text \<open>A key that a loop sets or leaves as it was.\<close>

definition upd :: "'a option \<Rightarrow> 'a option \<Rightarrow> 'a option" where
  "upd old new = (case new of None \<Rightarrow> old | Some v \<Rightarrow> Some v)"

section \<open>Loops shared by the procedures\<close>

text \<open>
  Every \<open>while ind < n\<close> loop reads \<open>tags[ind]\<close>, \<open>tags[ind + 1]\<close>, ... in turn. It is
  written as a recursion on the texts that remain, \<open>drop ind ts\<close>, with the index carried
  along; the result is the index after the loop with what the loop stored. A read of
  \<open>tags[ind]\<close> after \<open>ind += 1\<close> with no test of \<open>ind < n\<close> raises \<open>IndexError\<close> at the end of
  the sequence: the loops that do this return an option, \<open>None\<close> for the exception.
\<close>

text \<open>
  \<^verbatim>\<open>while ind < n:
    text = tags[ind]...
    if hit(text):
        details[key] = text; ind += 1; break
    ind += 1\<close>
\<close>

fun find_first :: "(str \<Rightarrow> bool) \<Rightarrow> str list \<Rightarrow> nat \<Rightarrow> nat \<times> str option" where
  "find_first hit [] i = (i, None)"
| "find_first hit (t # ts) i =
     (if hit t then (i + 1, Some t) else find_first hit ts (i + 1))"

text \<open>
  \<^verbatim>\<open>while ind < n:
    text = tags[ind]...
    if hit(text):
        details[key] = text; ind += 1; break
    if back(text):
        ind = temp_ind_32; break
    ind += 1\<close>
\<close>

fun scan_or_back ::
  "(str \<Rightarrow> bool) \<Rightarrow> (str \<Rightarrow> bool) \<Rightarrow> str list \<Rightarrow> nat \<Rightarrow> nat \<Rightarrow> nat \<times> str option" where
  "scan_or_back hit back [] i temp = (i, None)"
| "scan_or_back hit back (t # ts) i temp =
     (if hit t then (i + 1, Some t)
      else if back t then (temp, None)
      else scan_or_back hit back ts (i + 1) temp)"

text \<open>
  The petitioner and respondent loop of four procedures:
  \<^verbatim>\<open>while ind < n:
    text = tags[ind]...
    if any(kw in text for kw in KEYWORDS):
        if any(kw2 == text for kw2 in KEYWORDS):
            ind += 1
            text = tags[ind]...
        details[key] = text
        ind += 1
        break
    ind += 1\<close>
\<close>

fun party_scan :: "str list \<Rightarrow> str list \<Rightarrow> nat \<Rightarrow> (nat \<times> str option) option" where
  "party_scan kws [] i = Some (i, None)"
| "party_scan kws (t # ts) i =
     (if any_in kws t then
        (if any_eq kws t then
           (case ts of [] \<Rightarrow> None | t2 # _ \<Rightarrow> Some (i + 2, Some t2))
         else Some (i + 1, Some t))
      else party_scan kws ts (i + 1))"

text \<open>
  The same loop in \<open>scrape_case_details_2051_to_2061\<close>, where the read of the next block
  is guarded by \<open>if ind < n\<close>: at the end of the sequence \<open>text\<close> keeps the label.
\<close>

fun party_scan_guarded :: "str list \<Rightarrow> str list \<Rightarrow> nat \<Rightarrow> nat \<times> str option" where
  "party_scan_guarded kws [] i = (i, None)"
| "party_scan_guarded kws (t # ts) i =
     (if any_in kws t then
        (if any_eq kws t then
           (i + 2, Some (case ts of [] \<Rightarrow> t | t2 # _ \<Rightarrow> t2))
         else (i + 1, Some t))
      else party_scan_guarded kws ts (i + 1))"

text \<open>
  The court loop of \<open>scrape_case_details_2015_to_2044\<close> and
  \<open>scrape_case_details_2062_to_2072\<close>; \<open>tmp\<close> is \<open>temp_ijlash\<close>, the last non-empty text
  passed over. The second branch reads \<open>tags[ind]\<close> after \<open>ind += 1\<close> unguarded.
\<close>

fun bench_a ::
  "str list \<Rightarrow> str list \<Rightarrow> str list \<Rightarrow> nat \<Rightarrow> str \<Rightarrow> (nat \<times> str option) option" where
  "bench_a k6 k8 [] i tmp = Some (i, None)"
| "bench_a k6 k8 (t # ts) i tmp =
     (if t \<noteq> [] then
        (if any_eq k6 t then
           Some (i + 1, if \<not> str_in NIRNAYA_NO tmp then Some tmp else None)
         else if any_in k6 t then
           (case ts of
              [] \<Rightarrow> None
            | t2 # _ \<Rightarrow>
                (if \<not> any_in k8 t2 then Some (i + 2, Some (t @ SPACE @ t2))
                 else Some (i + 1, Some t)))
         else if any_in k8 t then
           Some (i, if \<not> str_in NIRNAYA_NO tmp then Some tmp else None)
         else bench_a k6 k8 ts (i + 1) t)
      else bench_a k6 k8 ts (i + 1) tmp)"

text \<open>The court loop of \<open>scrape_case_details_2045_to_2050\<close>.\<close>

fun bench_b :: "str list \<Rightarrow> str list \<Rightarrow> nat \<Rightarrow> str \<Rightarrow> nat \<times> str option" where
  "bench_b k6 [] i tmp = (i, None)"
| "bench_b k6 (t # ts) i tmp =
     (if t \<noteq> [] then
        (if any_eq k6 t then (i + 1, Some tmp)
         else if any_in k6 t then (i + 1, Some t)
         else if str_in NYAYADHISH t \<or> str_in MANANIYA t then (i, Some tmp)
         else bench_b k6 ts (i + 1) t)
      else bench_b k6 ts (i + 1) tmp)"

text \<open>
  The judges loop of \<open>scrape_case_details_2015_to_2044\<close>. The result holds, when the
  loop left by \<open>break\<close>, the judges and the case number if one was stored.
\<close>

fun judges_2015 ::
  "str list \<Rightarrow> str list \<Rightarrow> str list \<Rightarrow> str list \<Rightarrow> nat \<Rightarrow> str list
     \<Rightarrow> nat \<times> (str list \<times> str option) option" where
  "judges_2015 k8 k3 k5 [] i judges = (i, None)"
| "judges_2015 k8 k3 k5 (t # ts) i judges =
     (if t \<noteq> [] then
        (if any_in k8 t then judges_2015 k8 k3 k5 ts (i + 1) (judges @ [t])
         else if \<not> any_in k3 t \<and> \<not> any_in k5 t then (i + 1, Some (judges, Some t))
         else (i, Some (judges, None)))
      else judges_2015 k8 k3 k5 ts (i + 1) judges)"

text \<open>
  The judges loop of \<open>scrape_case_details_2045_to_2050\<close> and
  \<open>scrape_case_details_2051_to_2061\<close>: a judge line is appended, a date line stores the
  judges and the date and leaves the loop, any other non-empty line overwrites the case
  number and the loop goes on. The result holds the last case number stored and, when
  the loop left by \<open>break\<close>, the judges and the date.
\<close>

fun judges_b ::
  "(str \<Rightarrow> bool) \<Rightarrow> (str \<Rightarrow> bool) \<Rightarrow> str list \<Rightarrow> nat \<Rightarrow> str list \<Rightarrow> str option
     \<Rightarrow> nat \<times> str option \<times> (str list \<times> str) option" where
  "judges_b judge date [] i judges cno = (i, cno, None)"
| "judges_b judge date (t # ts) i judges cno =
     (if t \<noteq> [] then
        (if judge t then judges_b judge date ts (i + 1) (judges @ [t]) cno
         else if date t then (i + 1, cno, Some (judges, t))
         else judges_b judge date ts (i + 1) judges (Some t))
      else judges_b judge date ts (i + 1) judges cno)"

text \<open>
  The judges loop of \<open>scrape_case_details_2062_to_2072\<close>. When the loop left by
  \<open>break\<close> the result holds the judges, the date stored, the case number stored and the flag
  \<open>faisla_miti_before_case_no\<close>. After the bare word \<open>faisala\<close> the next block is read
  unguarded.
\<close>

fun judges_2062 ::
  "str list \<Rightarrow> str list \<Rightarrow> str list \<Rightarrow> str list \<Rightarrow> str list \<Rightarrow> str list \<Rightarrow> nat \<Rightarrow> str list
     \<Rightarrow> (nat \<times> (str list \<times> str option \<times> str option \<times> bool) option) option" where
  "judges_2062 k8 k7 k10 k3 k5 [] i judges = Some (i, None)"
| "judges_2062 k8 k7 k10 k3 k5 (t # ts) i judges =
     (if t \<noteq> [] then
        (if any_in k8 t then judges_2062 k8 k7 k10 k3 k5 ts (i + 1) (judges @ [t])
         else if any_prefix k7 t \<and> (str_in MITI t \<or> str_in MITI_2 t) then
           Some (i + 1, Some (judges, Some t, None, True))
         else if any_in k10 t then Some (i, Some (judges, None, Some t, False))
         else if \<not> any_in k3 t \<and> \<not> any_in k5 t then
           (if t \<noteq> FAISALA then Some (i + 1, Some (judges, None, Some t, False))
            else (case ts of
                    [] \<Rightarrow> None
                  | t2 # _ \<Rightarrow> Some (i + 2, Some (judges, None, Some t2, False))))
         else Some (i, Some (judges, None, None, False)))
      else judges_2062 k8 k7 k10 k3 k5 ts (i + 1) judges)"

text \<open>
  The judges loop of \<open>scrape_case_details_2073_to_2080_and_beyond\<close>: the two tests are
  independent \<open>if\<close>s, so a line can be a judge line and the date line.
\<close>

fun judges_2073 ::
  "str list \<Rightarrow> str list \<Rightarrow> str list \<Rightarrow> nat \<Rightarrow> str list \<Rightarrow> nat \<times> (str list \<times> str) option" where
  "judges_2073 k8 k7 [] i judges = (i, None)"
| "judges_2073 k8 k7 (t # ts) i judges =
     (if t \<noteq> [] then
        (let judges' = (if any_in k8 t then judges @ [t] else judges) in
         if any_prefix k7 t \<and> (str_in MITI t \<or> str_in MITI_2 t)
         then (i + 1, Some (judges', t))
         else judges_2073 k8 k7 ts (i + 1) judges')
      else judges_2073 k8 k7 ts (i + 1) judges)"

text \<open>
  The lookahead of \<open>scrape_case_details_2015_to_2044\<close> on \<open>temp_ind_64\<close>: does a subject
  word come before any petitioner or respondent word? The cursor is not moved.
\<close>

fun bisaya_lookahead :: "str list \<Rightarrow> str list \<Rightarrow> str list \<Rightarrow> str list \<Rightarrow> bool" where
  "bisaya_lookahead k3 k4 k5 [] = False"
| "bisaya_lookahead k3 k4 k5 (t # ts) =
     (if any_in k3 t \<or> any_in k4 t then False
      else if any_in k5 t then True
      else bisaya_lookahead k3 k4 k5 ts)"

text \<open>
  The same test in \<open>scrape_case_details_2045_to_2050\<close>, which runs on \<open>ind\<close> itself and so
  moves the cursor to the block where it stops.
\<close>

fun bisaya_scan :: "str list \<Rightarrow> str list \<Rightarrow> str list \<Rightarrow> str list \<Rightarrow> nat \<Rightarrow> nat \<times> bool" where
  "bisaya_scan k3 k4 k5 [] i = (i, False)"
| "bisaya_scan k3 k4 k5 (t # ts) i =
     (if any_in k3 t \<or> any_in k4 t then (i, False)
      else if any_in k5 t then (i, True)
      else bisaya_scan k3 k4 k5 ts (i + 1))"

text \<open>The date line: \<open>any(text.startswith(kw) for kw in KEYWORDS_7) and ("miti" in text or "mitii" in text)\<close>\<close>

definition is_date_line :: "str list \<Rightarrow> str \<Rightarrow> bool" where
  "is_date_line k7 t = (any_prefix k7 t \<and> (str_in MITI t \<or> str_in MITI_2 t))"

text \<open>\<open>"faisala"==text or "adesh"==text or "faisala:"==text\<close>\<close>

definition is_holding_token :: "str \<Rightarrow> bool" where
  "is_holding_token t = (FAISALA = t \<or> ADESH = t \<or> FAISALA_VISARGA = t)"


section \<open>Storing what a loop found\<close>

definition set_ijlas :: "scan \<Rightarrow> nat \<times> str option \<Rightarrow> scan" where
  "set_ijlas s r = s\<lparr>ind := fst r, d_ijlas := upd (d_ijlas s) (snd r)\<rparr>"

definition set_adesh_miti :: "scan \<Rightarrow> nat \<times> str option \<Rightarrow> scan" where
  "set_adesh_miti s r = s\<lparr>ind := fst r, d_adesh_miti := upd (d_adesh_miti s) (snd r)\<rparr>"

definition set_kes_nambar :: "scan \<Rightarrow> nat \<times> str option \<Rightarrow> scan" where
  "set_kes_nambar s r =
     s\<lparr>ind := fst r, d_kes_nambar := upd (d_kes_nambar s) (map_option PStr (snd r))\<rparr>"

definition set_bishaya :: "scan \<Rightarrow> nat \<times> str option \<Rightarrow> scan" where
  "set_bishaya s r = s\<lparr>ind := fst r, d_bishaya := upd (d_bishaya s) (snd r)\<rparr>"

definition set_niwedak :: "scan \<Rightarrow> nat \<times> str option \<Rightarrow> scan" where
  "set_niwedak s r =
     s\<lparr>ind := fst r, d_niwedak := upd (d_niwedak s) (map_option PStr (snd r))\<rparr>"

definition set_wipakshi :: "scan \<Rightarrow> nat \<times> str option \<Rightarrow> scan" where
  "set_wipakshi s r =
     s\<lparr>ind := fst r, d_wipakshi := upd (d_wipakshi s) (map_option PStr (snd r))\<rparr>"

text \<open>The blocks from the cursor on.\<close>

definition rest :: "str list \<Rightarrow> scan \<Rightarrow> str list" where
  "rest ts s = drop (ind s) ts"

text \<open>The petitioner and the respondent phase, unguarded and guarded.\<close>

definition petitioner_phase :: "str list \<Rightarrow> str list \<Rightarrow> scan \<Rightarrow> scan option" where
  "petitioner_phase k3 ts s = map_option (set_niwedak s) (party_scan k3 (rest ts s) (ind s))"

definition respondent_phase :: "str list \<Rightarrow> str list \<Rightarrow> scan \<Rightarrow> scan option" where
  "respondent_phase k4 ts s = map_option (set_wipakshi s) (party_scan k4 (rest ts s) (ind s))"

definition petitioner_phase_guarded :: "str list \<Rightarrow> str list \<Rightarrow> scan \<Rightarrow> scan" where
  "petitioner_phase_guarded k3 ts s = set_niwedak s (party_scan_guarded k3 (rest ts s) (ind s))"

definition respondent_phase_guarded :: "str list \<Rightarrow> str list \<Rightarrow> scan \<Rightarrow> scan" where
  "respondent_phase_guarded k4 ts s = set_wipakshi s (party_scan_guarded k4 (rest ts s) (ind s))"

text \<open>The court phase with \<open>bench_a\<close>; \<open>temp_ijlash\<close> starts empty.\<close>

definition court_phase_a :: "str list \<Rightarrow> str list \<Rightarrow> str list \<Rightarrow> scan \<Rightarrow> scan option" where
  "court_phase_a k6 k8 ts s = map_option (set_ijlas s) (bench_a k6 k8 (rest ts s) (ind s) [])"

text \<open>
  The last loop of every procedure, on \<open>tags[ind:]\<close>, followed by
  \<open>details["prakaran"] = prakarans\<close> and \<open>details["thahar"] = tahar\<close>.
\<close>

definition finish :: "str list \<Rightarrow> block list \<Rightarrow> scan \<Rightarrow> scan" where
  "finish k2 tags s =
     (let r = segment k2 (drop (ind s) tags)
      in s\<lparr>d_prakaran := Some (prakarans r), d_thahar := Some (tahar r)\<rparr>)"

section \<open>\<open>scrape_case_details_2015_to_2044\<close>\<close>

definition judges_phase_2015 :: "str list \<Rightarrow> scan \<Rightarrow> scan" where
  "judges_phase_2015 ts s =
     (case judges_2015 KEYWORDS_8 KEYWORDS_3 KEYWORDS_5_2015 (rest ts s) (ind s) [] of
        (i, None) \<Rightarrow> s\<lparr>ind := i\<rparr>
      | (i, Some (judges, cno)) \<Rightarrow>
          s\<lparr>ind := i, d_nyayadhish := Some judges,
            d_kes_nambar := upd (d_kes_nambar s) (map_option PStr cno)\<rparr>)"

text \<open>
  The phase before the petitioner: the subject when \<open>bisaya_before_niweduck\<close>, else the
  order date; a petitioner word met first sends the cursor back to the checkpoint.
\<close>

definition early_phase_2015 :: "bool \<Rightarrow> str list \<Rightarrow> scan \<Rightarrow> scan" where
  "early_phase_2015 bisaya_before_niweduck ts s =
     (if bisaya_before_niweduck
      then set_bishaya s (scan_or_back (any_prefix KEYWORDS_5_2015) (any_in KEYWORDS_3)
             (rest ts s) (ind s) (temp_ind_32 s))
      else set_adesh_miti s (scan_or_back (is_date_line KEYWORDS_7_2015) (any_in KEYWORDS_3)
             (rest ts s) (ind s) (temp_ind_32 s)))"

text \<open>
  The phase after the respondent: the subject when it did not come first, else the
  order date; a citation marker met first sends the cursor back to the checkpoint.
\<close>

definition late_phase_2015 :: "bool \<Rightarrow> str list \<Rightarrow> scan \<Rightarrow> scan" where
  "late_phase_2015 bisaya_before_niweduck ts s =
     (if \<not> bisaya_before_niweduck
      then set_bishaya s (scan_or_back (any_prefix KEYWORDS_5_2015) (any_in KEYWORDS_2_2015)
             (rest ts s) (ind s) (temp_ind_32 s))
      else set_adesh_miti s (scan_or_back (is_date_line KEYWORDS_7_2015) (any_in KEYWORDS_2_2015)
             (rest ts s) (ind s) (temp_ind_32 s)))"

definition phases_2015_to_2044 :: "block list \<Rightarrow> scan option" where
  "phases_2015_to_2044 tags =
     (let ts = map tag_text tags; n = length tags in
      do {
        s1 \<leftarrow> court_phase_a KEYWORDS_6_2015 KEYWORDS_8 ts scan_init;
        let s1 = checkpoint n s1;
        let s2 = checkpoint n (judges_phase_2015 ts s1);
        let bisaya_before_niweduck =
              bisaya_lookahead KEYWORDS_3 KEYWORDS_4_2015 KEYWORDS_5_2015 (rest ts s2);
        let s3 = checkpoint n (early_phase_2015 bisaya_before_niweduck ts s2);
        s4 \<leftarrow> petitioner_phase KEYWORDS_3 ts s3;
        let s4 = checkpoint n s4;
        s5 \<leftarrow> respondent_phase KEYWORDS_4_2015 ts s4;
        let s5 = checkpoint n s5;
        Some (checkpoint n (late_phase_2015 bisaya_before_niweduck ts s5))
      })"

definition extract_2015_to_2044 :: "block list \<Rightarrow> scan option" where
  "extract_2015_to_2044 tags =
     map_option (finish KEYWORDS_2_2015 tags) (phases_2015_to_2044 tags)"

section \<open>\<open>scrape_case_details_2045_to_2050\<close>\<close>

text \<open>\<open>"nyayadhish" in text or "mananiya" in text\<close>\<close>

definition is_judge_line :: "str \<Rightarrow> bool" where
  "is_judge_line t = (str_in NYAYADHISH t \<or> str_in MANANIYA t)"

definition judges_phase_b :: "(str \<Rightarrow> bool) \<Rightarrow> str list \<Rightarrow> scan \<Rightarrow> scan" where
  "judges_phase_b date ts s =
     (case judges_b is_judge_line date (rest ts s) (ind s) [] None of
        (i, cno, None) \<Rightarrow>
          s\<lparr>ind := i, d_kes_nambar := upd (d_kes_nambar s) (map_option PStr cno)\<rparr>
      | (i, cno, Some (judges, miti)) \<Rightarrow>
          s\<lparr>ind := i, d_kes_nambar := upd (d_kes_nambar s) (map_option PStr cno),
            d_nyayadhish := Some judges, d_adesh_miti := Some miti\<rparr>)"

text \<open>The subject phase, run before the petitioner or after the respondent.\<close>

definition subject_phase_2045 :: "str list \<Rightarrow> nat \<Rightarrow> scan \<Rightarrow> scan" where
  "subject_phase_2045 ts n s =
     checkpoint n (set_bishaya s (find_first (any_in KEYWORDS_5) (rest ts s) (ind s)))"

definition phases_2045_to_2050 :: "block list \<Rightarrow> scan option" where
  "phases_2045_to_2050 tags =
     (let ts = map tag_text tags; n = length tags in
      do {
        let s1 = checkpoint n (set_ijlas scan_init (bench_b KEYWORDS_6 (rest ts scan_init) 0 []));
        let s2 = checkpoint n
              (judges_phase_b (\<lambda>t. any_in KEYWORDS_7 t \<and> str_in MITI t) ts s1);
        let s2 = s2\<lparr>d_bishaya := Some []\<rparr>;
        let look = bisaya_scan KEYWORDS_3 KEYWORDS_4 KEYWORDS_5 (rest ts s2) (ind s2);
        let bisaya_before_niweduck = snd look;
        let s3 = checkpoint n (s2\<lparr>ind := fst look\<rparr>);
        let s3 = (if bisaya_before_niweduck then subject_phase_2045 ts n s3 else s3);
        s4 \<leftarrow> petitioner_phase KEYWORDS_3 ts s3;
        let s4 = checkpoint n s4;
        s5 \<leftarrow> respondent_phase KEYWORDS_4 ts s4;
        let s5 = checkpoint n s5;
        Some (if \<not> bisaya_before_niweduck then subject_phase_2045 ts n s5 else s5)
      })"

definition extract_2045_to_2050 :: "block list \<Rightarrow> scan option" where
  "extract_2045_to_2050 tags = map_option (finish KEYWORDS_2 tags) (phases_2045_to_2050 tags)"

section \<open>\<open>scrape_case_details_2051_to_2061\<close>\<close>

text \<open>\<open>text and ("ijlas" in text or "ijalas" in text)\<close>\<close>

definition is_court_line_2051 :: "str \<Rightarrow> bool" where
  "is_court_line_2051 t = (t \<noteq> [] \<and> (str_in IJLAS t \<or> str_in IJALAS t))"

text \<open>\<open>("adesh" in text or "faisala" in text or "faisalma" in text or "nirnaya" in text) and "miti" in text\<close>\<close>

definition is_date_line_2051 :: "str \<Rightarrow> bool" where
  "is_date_line_2051 t =
     ((str_in ADESH t \<or> str_in FAISALA t \<or> str_in FAISALMA t \<or> str_in NIRNAYA t)
      \<and> str_in MITI t)"

text \<open>\<open>"bishaya" in text or "mudda" in text or "bishaya" (second spelling) in text or "mudda:" in text\<close>\<close>

definition is_subject_line_2051 :: "str \<Rightarrow> bool" where
  "is_subject_line_2051 t =
     (str_in BISHAYA t \<or> str_in MUDDA t \<or> str_in BISHAYA_2 t \<or> str_in MUDDA_VISARGA t)"

definition subject_phase_2051 :: "str list \<Rightarrow> scan \<Rightarrow> scan" where
  "subject_phase_2051 ts s = set_bishaya s (find_first is_subject_line_2051 (rest ts s) (ind s))"

definition phases_2051_to_2061 :: "block list \<Rightarrow> scan" where
  "phases_2051_to_2061 tags =
     (let ts = map tag_text tags; n = length tags;
          s1 = checkpoint n
                 (set_ijlas scan_init (find_first is_court_line_2051 (rest ts scan_init) 0));
          s2 = checkpoint n (judges_phase_b is_date_line_2051 ts s1);
          s3 = checkpoint_no_else n (subject_phase_2051 ts s2);
          s4 = checkpoint n (petitioner_phase_guarded KEYWORDS_3 ts s3);
          s5 = checkpoint n (respondent_phase_guarded KEYWORDS_4 ts s4)
      in s5)"

definition extract_2051_to_2061 :: "block list \<Rightarrow> scan option" where
  "extract_2051_to_2061 tags = Some (finish KEYWORDS_2 tags (phases_2051_to_2061 tags))"


section \<open>\<open>scrape_case_details_2062_to_2072\<close>\<close>

definition judges_phase_2062 :: "str list \<Rightarrow> scan \<Rightarrow> (scan \<times> bool) option" where
  "judges_phase_2062 ts s =
     (case judges_2062 KEYWORDS_8 KEYWORDS_7 KEYWORDS_10 KEYWORDS_3 KEYWORDS_5
             (rest ts s) (ind s) [] of
        None \<Rightarrow> None
      | Some (i, None) \<Rightarrow> Some (s\<lparr>ind := i\<rparr>, False)
      | Some (i, Some (judges, miti, cno, faisla_miti_before_case_no)) \<Rightarrow>
          Some (s\<lparr>ind := i, d_nyayadhish := Some judges,
                  d_adesh_miti := upd (d_adesh_miti s) miti,
                  d_kes_nambar := upd (d_kes_nambar s) (map_option PStr cno)\<rparr>,
                faisla_miti_before_case_no))"

text \<open>
  The phase after the judges. When the date came first, the next non-empty block is the
  subject if it starts with a subject word and has no case-number code, else the case
  number; the flag returned is \<open>subject_before_case_no\<close>. Otherwise the date is looked for,
  and a citation prefix or holding token met first sends the cursor back.
\<close>

definition after_judges_2062 :: "bool \<Rightarrow> str list \<Rightarrow> scan \<Rightarrow> scan \<times> bool" where
  "after_judges_2062 faisla_miti_before_case_no ts s =
     (if faisla_miti_before_case_no then
        (case find_first (\<lambda>t. t \<noteq> []) (rest ts s) (ind s) of
           (i, None) \<Rightarrow> (s\<lparr>ind := i\<rparr>, False)
         | (i, Some t) \<Rightarrow>
             (if any_in KEYWORDS_10 t then (s\<lparr>ind := i, d_kes_nambar := Some (PStr t)\<rparr>, False)
              else if any_prefix KEYWORDS_5 t then (s\<lparr>ind := i, d_bishaya := Some t\<rparr>, True)
              else (s\<lparr>ind := i, d_kes_nambar := Some (PStr t)\<rparr>, False)))
      else
        (set_adesh_miti s
           (scan_or_back (\<lambda>t. t \<noteq> [] \<and> is_date_line KEYWORDS_7 t)
              (\<lambda>t. t \<noteq> [] \<and> (any_prefix KEYWORDS_2 t \<or> is_holding_token t))
              (rest ts s) (ind s) (temp_ind_32 s)),
         False))"

definition subject_phase_2062 :: "bool \<Rightarrow> str list \<Rightarrow> scan \<Rightarrow> scan" where
  "subject_phase_2062 subject_before_case_no ts s =
     (if subject_before_case_no
      then set_kes_nambar s (find_first (\<lambda>t. t \<noteq> []) (rest ts s) (ind s))
      else set_bishaya s
             (scan_or_back (\<lambda>t. t \<noteq> [] \<and> any_prefix KEYWORDS_5 t)
                (\<lambda>t. t \<noteq> [] \<and> any_in KEYWORDS_3 t)
                (rest ts s) (ind s) (temp_ind_32 s)))"

text \<open>The phases before the petitioner and respondent are looked for.\<close>

definition before_parties_2062 :: "block list \<Rightarrow> scan option" where
  "before_parties_2062 tags =
     (let ts = map tag_text tags; n = length tags in
      do {
        s1 \<leftarrow> court_phase_a KEYWORDS_6 KEYWORDS_8 ts scan_init;
        let s1 = checkpoint n s1;
        (s2, faisla_miti_before_case_no) \<leftarrow> judges_phase_2062 ts s1;
        let s2 = checkpoint n s2;
        let (s3, subject_before_case_no) = after_judges_2062 faisla_miti_before_case_no ts s2;
        let s3 = checkpoint n s3;
        Some (checkpoint n (subject_phase_2062 subject_before_case_no ts s3))
      })"

text \<open>
  \<open>count_how_many\<close>: the non-empty blocks from the cursor on that are exactly a versus
  marker, up to and with the first block that starts with a citation prefix.
\<close>

fun count_versus :: "str list \<Rightarrow> str list \<Rightarrow> str list \<Rightarrow> nat" where
  "count_versus k9 k2 [] = 0"
| "count_versus k9 k2 (t # ts) =
     (if t \<noteq> [] \<and> any_eq k9 t then 1 else 0)
     + (if any_prefix k2 t then 0 else count_versus k9 k2 ts)"

text \<open>An append of what a party loop found.\<close>

definition found :: "str option \<Rightarrow> str list" where
  "found v = (case v of None \<Rightarrow> [] | Some t \<Rightarrow> [t])"

text \<open>
  \<open>while count_how_many > 0\<close>: one petitioner loop and one respondent loop for every
  marker counted, each followed by the checkpoint step.
\<close>

fun pairs_2062 ::
  "nat \<Rightarrow> str list \<Rightarrow> nat \<Rightarrow> scan \<Rightarrow> str list \<Rightarrow> str list
     \<Rightarrow> (scan \<times> str list \<times> str list) option" where
  "pairs_2062 0 ts n s appellant opposition = Some (s, appellant, opposition)"
| "pairs_2062 (Suc count_how_many) ts n s appellant opposition =
     (case party_scan KEYWORDS_3 (rest ts s) (ind s) of
        None \<Rightarrow> None
      | Some (i1, p) \<Rightarrow>
          (let s1 = checkpoint n (s\<lparr>ind := i1\<rparr>) in
           case party_scan KEYWORDS_4 (rest ts s1) (ind s1) of
             None \<Rightarrow> None
           | Some (i2, r) \<Rightarrow>
               pairs_2062 count_how_many ts n (checkpoint n (s1\<lparr>ind := i2\<rparr>))
                 (appellant @ found p) (opposition @ found r)))"

text \<open>
  The scan on \<open>temp_ind_128\<close> from the first block: every non-empty block that contains
  a case-number code is taken, up to and with the first non-empty block that starts
  with a citation prefix or is exactly a word of \<open>KEYWORDS_7\<close>.
\<close>

fun case_numbers :: "str list \<Rightarrow> str list \<Rightarrow> str list \<Rightarrow> str list \<Rightarrow> str list" where
  "case_numbers k10 k2 k7 [] = []"
| "case_numbers k10 k2 k7 (t # ts) =
     (if t \<noteq> [] then
        (if any_in k10 t then [t] else [])
        @ (if any_prefix k2 t \<or> any_eq k7 t then [] else case_numbers k10 k2 k7 ts)
      else case_numbers k10 k2 k7 ts)"

definition parties_2062 :: "str list \<Rightarrow> nat \<Rightarrow> scan \<Rightarrow> scan option" where
  "parties_2062 ts n s =
     (let count_how_many = count_versus KEYWORDS_9 KEYWORDS_2 (rest ts s) in
      if count_how_many > 1 then
        do {
          (s', appellant, opposition) \<leftarrow> pairs_2062 count_how_many ts n s [] [];
          Some (s'\<lparr>d_kes_nambar := Some (PList (case_numbers KEYWORDS_10 KEYWORDS_2 KEYWORDS_7 ts)),
                   d_niwedak := Some (PList appellant),
                   d_wipakshi := Some (PList opposition)\<rparr>)
        }
      else
        do {
          s1 \<leftarrow> petitioner_phase KEYWORDS_3 ts s;
          let s1 = checkpoint n s1;
          s2 \<leftarrow> respondent_phase KEYWORDS_4 ts s1;
          Some (checkpoint n s2)
        })"

definition phases_2062_to_2072 :: "block list \<Rightarrow> scan option" where
  "phases_2062_to_2072 tags =
     do {
       s \<leftarrow> before_parties_2062 tags;
       parties_2062 (map tag_text tags) (length tags) s
     }"

definition extract_2062_to_2072 :: "block list \<Rightarrow> scan option" where
  "extract_2062_to_2072 tags = map_option (finish KEYWORDS_2 tags) (phases_2062_to_2072 tags)"

text \<open>
  The reading of "a forward scan that stops at the first block with the property": the
  blocks before the first one that has it, and that one.
\<close>

definition upto_first :: "('a \<Rightarrow> bool) \<Rightarrow> 'a list \<Rightarrow> 'a list" where
  "upto_first P xs = takeWhile (\<lambda>x. \<not> P x) xs @ take 1 (dropWhile (\<lambda>x. \<not> P x) xs)"

text \<open>A value of \<open>details\<close> that is absent or a string: \<open>isinstance(v, list)\<close> fails.\<close>

definition not_list :: "pyval option \<Rightarrow> bool" where
  "not_list v = (case v of Some (PList xs) \<Rightarrow> False | _ \<Rightarrow> True)"

section \<open>\<open>scrape_case_details_2073_to_2080_and_beyond\<close>\<close>

text \<open>
  The phases of this procedure read \<open>get_text(strip=True)\<close>; its last loop reads
  \<open>get_text(separator=' ', strip=True)\<close> as the others do.
\<close>

definition judges_phase_2073 :: "str list \<Rightarrow> scan \<Rightarrow> scan" where
  "judges_phase_2073 ts s =
     (case judges_2073 KEYWORDS_8 KEYWORDS_7 (rest ts s) (ind s) [] of
        (i, None) \<Rightarrow> s\<lparr>ind := i\<rparr>
      | (i, Some (judges, miti)) \<Rightarrow>
          s\<lparr>ind := i, d_nyayadhish := Some judges, d_adesh_miti := Some miti\<rparr>)"

text \<open>
  The case-number loop: the first non-empty block is the subject when it contains a
  subject word (and the cursor moves past it), else it is the case number (and the
  cursor stays on it).
\<close>

fun case_or_subject :: "str list \<Rightarrow> str list \<Rightarrow> nat \<Rightarrow> nat \<times> (bool \<times> str) option" where
  "case_or_subject k5 [] i = (i, None)"
| "case_or_subject k5 (t # ts) i =
     (if t \<noteq> [] then
        (if any_in k5 t then (i + 1, Some (True, t)) else (i, Some (False, t)))
      else case_or_subject k5 ts (i + 1))"

definition case_phase_2073 :: "str list \<Rightarrow> scan \<Rightarrow> scan \<times> bool" where
  "case_phase_2073 ts s =
     (case case_or_subject KEYWORDS_5 (rest ts s) (ind s) of
        (i, None) \<Rightarrow> (s\<lparr>ind := i\<rparr>, False)
      | (i, Some (True, t)) \<Rightarrow> (s\<lparr>ind := i, d_bishaya := Some t\<rparr>, True)
      | (i, Some (False, t)) \<Rightarrow> (s\<lparr>ind := i, d_kes_nambar := Some (PStr t)\<rparr>, False))"

text \<open>
  The end test of the group loop, on \<open>tags[temp_ind:]\<close>: a block that contains a
  citation prefix ends the groups; an exact versus marker met first calls for another
  group.
\<close>

fun groups_end :: "str list \<Rightarrow> str list \<Rightarrow> str list \<Rightarrow> bool" where
  "groups_end k2 k9 [] = False"
| "groups_end k2 k9 (t # ts) =
     (if any_in k2 t then True
      else if any_eq k9 t then False
      else groups_end k2 k9 ts)"

lemma find_first_advances:
  "find_first hit ts i = (j, v) \<Longrightarrow> ts \<noteq> [] \<Longrightarrow> i < j"
proof (induction ts arbitrary: i)
  case Nil
  then show ?case by simp
next
  case (Cons t ts)
  show ?case
  proof (cases "hit t")
    case True
    then show ?thesis using Cons.prems by auto
  next
    case False
    then have r: "find_first hit ts (i + 1) = (j, v)" using Cons.prems by simp
    show ?thesis
    proof (cases ts)
      case Nil
      then show ?thesis using r by auto
    next
      case (Cons a list)
      then show ?thesis using Cons.IH [of "i + 1"] r \<open>ts = a # list\<close> by auto
    qed
  qed
qed

lemma party_scan_mono: "party_scan kws ts i = Some (j, v) \<Longrightarrow> i \<le> j"
proof (induction ts arbitrary: i)
  case Nil
  then show ?case by simp
next
  case (Cons t ts)
  show ?case
  proof (cases "any_in kws t")
    case True
    then show ?thesis using Cons.prems by (auto split: if_splits list.splits)
  next
    case False
    then show ?thesis using Cons.prems Cons.IH [of "i + 1"] by auto
  qed
qed

text \<open>
  \<open>while temp_flag and ind < n\<close>: a case number (the next non-empty block), a
  petitioner, a respondent, then the end test. The three lists reach \<open>details\<close> only when
  the end test finds a citation prefix; the result holds them in that case. No
  checkpoint step is taken inside the loop.
\<close>

function groups_2073 ::
  "str list \<Rightarrow> nat \<Rightarrow> str list \<Rightarrow> str list \<Rightarrow> str list
     \<Rightarrow> (nat \<times> (str list \<times> str list \<times> str list) option) option" where
  "groups_2073 ts i case_no appellant opposition =
     (if i < length ts then
        (case find_first (\<lambda>t. t \<noteq> []) (drop i ts) i of
           (i1, c) \<Rightarrow>
             (case party_scan KEYWORDS_3 (drop i1 ts) i1 of
                None \<Rightarrow> None
              | Some (i2, p) \<Rightarrow>
                  (case party_scan KEYWORDS_4 (drop i2 ts) i2 of
                     None \<Rightarrow> None
                   | Some (i3, r) \<Rightarrow>
                       (if groups_end KEYWORDS_2 KEYWORDS_9 (drop i3 ts)
                        then Some (i3, Some (case_no @ found c, appellant @ found p,
                                             opposition @ found r))
                        else groups_2073 ts i3 (case_no @ found c) (appellant @ found p)
                               (opposition @ found r)))))
      else Some (i, None))"
  by pat_completeness auto
termination
proof (relation "measure (\<lambda>(ts, i, case_no, appellant, opposition). length ts - i)", goal_cases)
  case 1
  show ?case by simp
next
  case (2 ts i case_no appellant opposition i1 c x2 i2 p x2a i3 r)
  have "drop i ts \<noteq> []" using 2(1) by simp
  then have "i < i1"
    using 2(2) find_first_advances [of "\<lambda>t. t \<noteq> []" "drop i ts" i i1 c] by simp
  moreover have "i1 \<le> i2"
    using 2(3,4) party_scan_mono [of KEYWORDS_3 "drop i1 ts" i1 i2 p] by simp
  moreover have "i2 \<le> i3"
    using 2(5,6) party_scan_mono [of KEYWORDS_4 "drop i2 ts" i2 i3 r] by simp
  ultimately show ?case using 2(1) by simp
qed

definition groups_phase_2073 :: "str list \<Rightarrow> scan \<Rightarrow> scan option" where
  "groups_phase_2073 ts s =
     (case groups_2073 ts (ind s) [] [] [] of
        None \<Rightarrow> None
      | Some (i, None) \<Rightarrow> Some (s\<lparr>ind := i\<rparr>)
      | Some (i, Some (case_no, appellant, opposition)) \<Rightarrow>
          Some (s\<lparr>ind := i, d_kes_nambar := Some (PList case_no),
                  d_niwedak := Some (PList appellant),
                  d_wipakshi := Some (PList opposition)\<rparr>))"

definition standard_phases_2073 :: "str list \<Rightarrow> nat \<Rightarrow> scan \<Rightarrow> scan option" where
  "standard_phases_2073 ts n s =
     do {
       let s1 = checkpoint n (set_bishaya s (find_first (any_in KEYWORDS_5) (rest ts s) (ind s)));
       s2 \<leftarrow> petitioner_phase KEYWORDS_3 ts s1;
       let s2 = checkpoint n s2;
       s3 \<leftarrow> respondent_phase KEYWORDS_4 ts s2;
       Some (checkpoint n s3)
     }"

text \<open>The state after the court phase and the judges phase, each with its checkpoint step.\<close>

definition after_judges_2073 :: "str list \<Rightarrow> nat \<Rightarrow> scan" where
  "after_judges_2073 ts n =
     (let s1 = checkpoint n
                 (set_ijlas scan_init
                    (find_first (\<lambda>t. t \<noteq> [] \<and> any_in KEYWORDS_6 t) (rest ts scan_init) 0))
      in checkpoint n (judges_phase_2073 ts s1))"

definition phases_2073_to_2080_and_beyond :: "block list \<Rightarrow> scan option" where
  "phases_2073_to_2080_and_beyond tags =
     (let ts = map tag_text_plain tags; n = length tags;
          s2 = after_judges_2073 ts n;
          (s3, bisaya_before_kas_no) = case_phase_2073 ts s2;
          s3 = checkpoint_gt n s3
      in if bisaya_before_kas_no
         then map_option (checkpoint n) (groups_phase_2073 ts s3)
         else standard_phases_2073 ts n s3)"

definition extract_2073_to_2080_and_beyond :: "block list \<Rightarrow> scan option" where
  "extract_2073_to_2080_and_beyond tags =
     map_option (finish KEYWORDS_2 tags) (phases_2073_to_2080_and_beyond tags)"


section \<open>The record handed to the database\<close>

text \<open>
  A column value: \<open>NULL\<close>, a text, or the text \<open>json.dumps(xs, ensure_ascii=False)\<close> of a
  list of strings, kept as the list it encodes.
\<close>

datatype sqlval = Null | Text str | Json "str list"

text \<open>The dict \<open>data\<close>: the link and the seventeen other columns that are written.\<close>

record data =
  link :: str
  nirnaya_no :: sqlval
  bhaag :: sqlval
  mudda_kisim :: sqlval
  saal :: sqlval
  mahina :: sqlval
  anka :: sqlval
  faisala_miti :: sqlval
  adalat_ijlas :: sqlval
  nyayadhish :: sqlval
  adesh_miti :: sqlval
  kes_nambar :: sqlval
  bishaya :: sqlval
  niwedak :: sqlval
  wipakshi :: sqlval
  prakaran :: sqlval
  thahar :: sqlval
  html_file_path :: sqlval

text \<open>
  What a procedure reads from the parsed page before the block sequence.
  \<open>title_words\<close> is \<open>title_tag.get_text(strip=True).split()\<close>, \<open>None\<close> when the page has
  no title tag. The four edition fields are the results of \<open>get_edition_field\<close>.
  \<open>date_words\<close> is \<open>None\<close> when the page has no \<open>post-meta\<close> region or that region does not
  hold the decision-date label; else it is the list of words
  \<open>post_meta.text.strip().split(label + " :")[-1].split("\n")[0].strip().split()\<close>.
  \<open>saved_path\<close> is the path of the saved file, and \<open>div_tag\<close> the block sequence of the
  detail region, \<open>None\<close> when the page has no such region.
\<close>

record page =
  title_words :: "str list option"
  edition_bhaag :: "str option"
  edition_saal :: "str option"
  edition_mahina :: "str option"
  edition_anka :: "str option"
  date_words :: "str list option"
  saved_path :: str
  div_tag :: "block list option"

text \<open>
  The title word as the first four procedures read it:
  \<open>split()[2] if title_tag and len(split()) > 2 else "N/A"\<close>.
\<close>

definition decision_title_guarded :: "page \<Rightarrow> str" where
  "decision_title_guarded pg =
     (case title_words pg of
        None \<Rightarrow> NA
      | Some ws \<Rightarrow> if length ws > 2 then ws ! 2 else NA)"

text \<open>
  The title word as the last procedure reads it: \<open>split()[2] if title_tag else "N/A"\<close>.
  A title of fewer than three words raises \<open>IndexError\<close>, here \<open>None\<close>.
\<close>

definition decision_title_unguarded :: "page \<Rightarrow> str option" where
  "decision_title_unguarded pg =
     (case title_words pg of
        None \<Rightarrow> Some NA
      | Some ws \<Rightarrow> if length ws > 2 then Some (ws ! 2) else None)"

text \<open>
  The decision date: the first of the words, read by the first four procedures inside
  \<open>try: ... except IndexError: decision_date = "N/A"\<close> and by the last one with no guard.
\<close>

definition decision_date_guarded :: "page \<Rightarrow> str" where
  "decision_date_guarded pg =
     (case date_words pg of None \<Rightarrow> NA | Some [] \<Rightarrow> NA | Some (w # _) \<Rightarrow> w)"

definition decision_date_unguarded :: "page \<Rightarrow> str option" where
  "decision_date_unguarded pg =
     (case date_words pg of None \<Rightarrow> Some NA | Some [] \<Rightarrow> None | Some (w # _) \<Rightarrow> Some w)"

text \<open>
  The title word and the decision date of a page; \<open>guarded\<close> holds for the first four
  procedures. \<open>None\<close> is the \<open>IndexError\<close> of the last procedure.
\<close>

definition header :: "bool \<Rightarrow> page \<Rightarrow> (str \<times> str) option" where
  "header guarded pg =
     (if guarded then Some (decision_title_guarded pg, decision_date_guarded pg)
      else do {
        title \<leftarrow> decision_title_unguarded pg;
        date \<leftarrow> decision_date_unguarded pg;
        Some (title, date)
      })"

text \<open>\<open>x or "N/A"\<close>, written by the first four procedures\<close>

definition or_na :: "str option \<Rightarrow> sqlval" where
  "or_na x = (case x of None \<Rightarrow> Text NA | Some v \<Rightarrow> if v = [] then Text NA else Text v)"

text \<open>the bare value, written by the last procedure\<close>

definition bare :: "str option \<Rightarrow> sqlval" where
  "bare x = (case x of None \<Rightarrow> Null | Some v \<Rightarrow> Text v)"

text \<open>\<open>details.get(key, "N/A")\<close>\<close>

definition get_or_na :: "str option \<Rightarrow> sqlval" where
  "get_or_na x = (case x of None \<Rightarrow> Text NA | Some v \<Rightarrow> Text v)"

text \<open>\<open>json.dumps(details.get(key, []), ensure_ascii=False)\<close>\<close>

definition dumps_or_empty :: "str list option \<Rightarrow> sqlval" where
  "dumps_or_empty x = (case x of None \<Rightarrow> Json [] | Some xs \<Rightarrow> Json xs)"

text \<open>
  \<open>json.dumps(details.get(key, []), ...) if isinstance(details.get(key), list)
  else details.get(key, "N/A")\<close>
\<close>

definition str_or_list :: "pyval option \<Rightarrow> sqlval" where
  "str_or_list x =
     (case x of None \<Rightarrow> Text NA | Some (PStr v) \<Rightarrow> Text v | Some (PList xs) \<Rightarrow> Json xs)"

text \<open>
  The dict \<open>data\<close> built from the page and \<open>details\<close>. \<open>with_na\<close> holds for the first four
  procedures, which write \<open>x or "N/A"\<close> for the edition fields. The code point 39 is the
  quote of \<open>f"'{decision_date}'"\<close>.
\<close>

definition make_data ::
  "bool \<Rightarrow> str \<Rightarrow> str option \<Rightarrow> str \<Rightarrow> str \<Rightarrow> page \<Rightarrow> scan \<Rightarrow> data" where
  "make_data with_na url mudda_type decision_title decision_date pg d =
     \<lparr>link = url,
      nirnaya_no = Text decision_title,
      bhaag = (if with_na then or_na (edition_bhaag pg) else bare (edition_bhaag pg)),
      mudda_kisim = bare mudda_type,
      saal = (if with_na then or_na (edition_saal pg) else bare (edition_saal pg)),
      mahina = (if with_na then or_na (edition_mahina pg) else bare (edition_mahina pg)),
      anka = (if with_na then or_na (edition_anka pg) else bare (edition_anka pg)),
      faisala_miti = Text ([39] @ decision_date @ [39]),
      adalat_ijlas = get_or_na (d_ijlas d),
      nyayadhish = dumps_or_empty (d_nyayadhish d),
      adesh_miti = get_or_na (d_adesh_miti d),
      kes_nambar = str_or_list (d_kes_nambar d),
      bishaya = get_or_na (d_bishaya d),
      niwedak = str_or_list (d_niwedak d),
      wipakshi = str_or_list (d_wipakshi d),
      prakaran = dumps_or_empty (d_prakaran d),
      thahar = dumps_or_empty (d_thahar d),
      html_file_path = Text (saved_path pg)\<rparr>"

text \<open>
  The nine columns that come from the block sequence, in the order court, judges,
  order date, case number, subject, petitioner, respondent, citations, holding; and
  their values when nothing was found.
\<close>

definition extracted_columns :: "data \<Rightarrow> sqlval list" where
  "extracted_columns r =
     [adalat_ijlas r, nyayadhish r, adesh_miti r, kes_nambar r, bishaya r, niwedak r,
      wipakshi r, prakaran r, thahar r]"

definition unknown_columns :: "sqlval list" where
  "unknown_columns =
     [Text NA, Json [], Text NA, Text NA, Text NA, Text NA, Text NA, Json [], Json []]"

section \<open>The table \<open>cases\<close> and \<open>save_to_sqlite\<close>\<close>

text \<open>
  A row of \<open>cases\<close>: \<open>id INTEGER PRIMARY KEY AUTOINCREMENT\<close>, the eighteen written columns
  (\<open>link\<close> is \<open>UNIQUE\<close>) and \<open>created_at\<close>, which defaults to the time of the insert. The
  database keeps, with the rows, the largest id the table ever used (the
  \<open>sqlite_sequence\<close> entry of an \<open>AUTOINCREMENT\<close> table).
\<close>

record case_row =
  row_id :: nat
  row_data :: data
  created_at :: nat

record db =
  cases :: "case_row list"
  cases_seq :: nat

definition empty_db :: db where
  "empty_db = \<lparr>cases = [], cases_seq = 0\<rparr>"

text \<open>
  \<open>INSERT OR REPLACE INTO cases (...) VALUES (...)\<close> followed by \<open>commit\<close>: the rows that
  hold the same link are deleted, then the new row is inserted with a fresh id, larger
  than every id used before, and with the current time \<open>now\<close>.
\<close>

definition save_to_sqlite :: "nat \<Rightarrow> data \<Rightarrow> db \<Rightarrow> db" where
  "save_to_sqlite now d s =
     (let others = filter (\<lambda>r. link (row_data r) \<noteq> link d) (cases s);
          new_id = Suc (fold max (map row_id (cases s)) (cases_seq s))
      in \<lparr>cases = others @ [\<lparr>row_id = new_id, row_data = d, created_at = now\<rparr>],
          cases_seq = new_id\<rparr>)"

text \<open>\<open>SELECT link FROM cases WHERE link = ?\<close> finds a row\<close>

definition url_exists :: "str \<Rightarrow> db \<Rightarrow> bool" where
  "url_exists url s = list_ex (\<lambda>r. link (row_data r) = url) (cases s)"

section \<open>The five procedures\<close>

text \<open>
  \<open>details\<close> at the end of the \<open>if div_tag:\<close> block: the empty dict when the page has no
  detail region, else what the phases and the last loop stored; \<open>None\<close> when one of them
  raised \<open>IndexError\<close>.
\<close>

definition details_of :: "(block list \<Rightarrow> scan option) \<Rightarrow> block list option \<Rightarrow> scan option" where
  "details_of extract dv = (case dv of None \<Rightarrow> Some scan_init | Some tags \<Rightarrow> extract tags)"

text \<open>
  The body of a procedure from the parsed page on. \<open>soup\<close> is the result of
  \<open>return_soup\<close>, \<open>None\<close> when the page could not be had. The whole body is inside
  \<open>try: ... except Exception: return False\<close>, so an \<open>IndexError\<close>, from the header or
  from the block sequence, gives \<open>False\<close> and nothing is saved. (The path of the saved
  file is built by the call that \<open>return_soup\<close> has made with the same arguments, so it
  does not fail here; the database is taken to accept the statement.)
\<close>

definition scrape_body ::
  "(block list \<Rightarrow> scan option) \<Rightarrow> bool \<Rightarrow> nat \<Rightarrow> str \<Rightarrow> str option \<Rightarrow> page option \<Rightarrow> db
     \<Rightarrow> bool \<times> db" where
  "scrape_body extract with_na now url mudda_type soup s =
     (case soup of
        None \<Rightarrow> (False, s)
      | Some pg \<Rightarrow>
          (case header with_na pg of
             None \<Rightarrow> (False, s)
           | Some (decision_title, decision_date) \<Rightarrow>
               (case details_of extract (div_tag pg) of
                  None \<Rightarrow> (False, s)
                | Some d \<Rightarrow>
                    (True, save_to_sqlite now
                       (make_data with_na url mudda_type decision_title decision_date pg d) s))))"

text \<open>The first four procedures skip a link that is in the table.\<close>

definition scrape_case_details_2015_to_2044 ::
  "nat \<Rightarrow> str \<Rightarrow> str option \<Rightarrow> page option \<Rightarrow> db \<Rightarrow> bool \<times> db" where
  "scrape_case_details_2015_to_2044 now url mudda_type soup s =
     (if url_exists url s then (True, s)
      else scrape_body extract_2015_to_2044 True now url mudda_type soup s)"

definition scrape_case_details_2045_to_2050 ::
  "nat \<Rightarrow> str \<Rightarrow> str option \<Rightarrow> page option \<Rightarrow> db \<Rightarrow> bool \<times> db" where
  "scrape_case_details_2045_to_2050 now url mudda_type soup s =
     (if url_exists url s then (True, s)
      else scrape_body extract_2045_to_2050 True now url mudda_type soup s)"

definition scrape_case_details_2051_to_2061 ::
  "nat \<Rightarrow> str \<Rightarrow> str option \<Rightarrow> page option \<Rightarrow> db \<Rightarrow> bool \<times> db" where
  "scrape_case_details_2051_to_2061 now url mudda_type soup s =
     (if url_exists url s then (True, s)
      else scrape_body extract_2051_to_2061 True now url mudda_type soup s)"

definition scrape_case_details_2062_to_2072 ::
  "nat \<Rightarrow> str \<Rightarrow> str option \<Rightarrow> page option \<Rightarrow> db \<Rightarrow> bool \<times> db" where
  "scrape_case_details_2062_to_2072 now url mudda_type soup s =
     (if url_exists url s then (True, s)
      else scrape_body extract_2062_to_2072 True now url mudda_type soup s)"

text \<open>
  The last procedure does not look the link up; it first asks for the page and gives
  up unless the status is 200 (\<open>status_ok\<close>).
\<close>

definition scrape_case_details_2073_to_2080_and_beyond ::
  "bool \<Rightarrow> nat \<Rightarrow> str \<Rightarrow> str option \<Rightarrow> page option \<Rightarrow> db \<Rightarrow> bool \<times> db" where
  "scrape_case_details_2073_to_2080_and_beyond status_ok now url mudda_type soup s =
     (if \<not> status_ok then (False, s)
      else scrape_body extract_2073_to_2080_and_beyond False now url mudda_type soup s)"

text \<open>The block-sequence part of the procedure of an era.\<close>

fun extract_of :: "era \<Rightarrow> block list \<Rightarrow> scan option" where
  "extract_of E2015_to_2044 = extract_2015_to_2044"
| "extract_of E2045_to_2050 = extract_2045_to_2050"
| "extract_of E2051_to_2061 = extract_2051_to_2061"
| "extract_of E2062_to_2072 = extract_2062_to_2072"
| "extract_of E2073_to_2080_and_beyond = extract_2073_to_2080_and_beyond"

text \<open>A page with no title tag, no edition fields, no date and the given detail region.\<close>

definition plain_page :: "block list option \<Rightarrow> page" where
  "plain_page dv = \<lparr>title_words = None, edition_bhaag = None, edition_saal = None,
     edition_mahina = None, edition_anka = None, date_words = None, saved_path = [],
     div_tag = dv\<rparr>"

text \<open>
  Three words of the tables, for the examples: the first petitioner word of
  \<open>KEYWORDS_3\<close>, the third versus marker of \<open>KEYWORDS_9\<close> and the first bench word of
  \<open>KEYWORDS_6\<close>.
\<close>

definition NIWEDAK :: str where
  "NIWEDAK = [2344, 2367, 2357, 2375, 2342, 2325]"

definition WIRUDDHA :: str where
  "WIRUDDHA = [2357, 2367, 2352, 2369, 2342, 2381, 2343]"

definition ADALAT :: str where
  "ADALAT = [2309, 2342, 2366, 2354, 2340]"

text \<open>
  The first respondent word of \<open>KEYWORDS_4\<close>, the first citation prefix of \<open>KEYWORDS_2\<close>,
  and a document of two cases: a case number with the code \<open>CI\<close>, a petitioner, the
  versus marker and a respondent, twice, then a citation.
\<close>

definition WIPAKSHI :: str where
  "WIPAKSHI = [2357, 2367, 2346, 2325, 2381, 2359, 2368]"

definition PRAKARAN_NO :: str where
  "PRAKARAN_NO = [2346, 2381, 2352, 2325, 2352, 2339, 32, 2344, 2306, 46]"

definition two_cases :: "block list" where
  "two_cases =
     [blk [67, 73, 32, 49], blk (NIWEDAK @ [32, 65]), blk WIRUDDHA, blk (WIPAKSHI @ [32, 66]),
      blk [67, 73, 32, 50], blk (NIWEDAK @ [32, 67]), blk WIRUDDHA, blk (WIPAKSHI @ [32, 68]),
      blk PRAKARAN_NO]"

text \<open>A document of one case, and one with two versus markers and no respondent.\<close>

definition one_case :: "block list" where
  "one_case =
     [blk (NIWEDAK @ [32, 65]), blk WIRUDDHA, blk (WIPAKSHI @ [32, 66]), blk PRAKARAN_NO]"

definition two_markers :: "block list" where
  "two_markers = [blk (NIWEDAK @ [32, 65]), blk WIRUDDHA, blk WIRUDDHA]"

text \<open>The state a procedure ends in when every phase found nothing.\<close>

definition empty_result :: scan where
  "empty_result = scan_init\<lparr>d_prakaran := Some [], d_thahar := Some []\<rparr>"


section \<open>Properties of \<open>from_each_page\<close>\<close>

lemma removeAll_filter_conj:
  "removeAll x (filter P xs) = filter (\<lambda>y. P y \<and> y \<noteq> x) xs"
  by (induction xs) auto

lemma fold_fromkeys_first_occurrences:
  "fold (\<lambda>k keys. if k \<in> set keys then keys else keys @ [k]) li acc =
     acc @ first_occurrences (filter (\<lambda>x. x \<notin> set acc) li)"
proof (induction li arbitrary: acc)
  case Nil
  show ?case by simp
next
  case (Cons x xs)
  show ?case
  proof (cases "x \<in> set acc")
    case True
    then show ?thesis using Cons.IH [of acc] by simp
  next
    case False
    have "filter (\<lambda>y. y \<notin> set (acc @ [x])) xs = removeAll x (filter (\<lambda>y. y \<notin> set acc) xs)"
      by (simp add: removeAll_filter_conj conj_commute)
    then show ?thesis using False Cons.IH [of "acc @ [x]"] by simp
  qed
qed

lemma dict_fromkeys_first_occurrences: "dict_fromkeys li = first_occurrences li"
  by (simp add: dict_fromkeys_def fold_fromkeys_first_occurrences)

lemma first_occurrences_set: "set (first_occurrences xs) = set xs"
  by (induction xs rule: first_occurrences.induct) auto

lemma first_occurrences_distinct: "distinct (first_occurrences xs)"
  by (induction xs rule: first_occurrences.induct) (auto simp: first_occurrences_set)

text \<open>
  C10. When at most one candidate link is collected, \<open>from_each_page\<close> returns the empty
  list, so the only case link of a one-case page is discarded. When two or more are
  collected (counted with repetitions), it returns them without duplicates, each at the
  place of its first occurrence.
\<close>

theorem from_each_page_single_result:
  "(length (collect_links links) \<le> 1 \<longrightarrow> from_each_page links = []) \<and>
   (2 \<le> length (collect_links links) \<longrightarrow>
      from_each_page links = first_occurrences (collect_links links) \<and>
      distinct (from_each_page links) \<and>
      set (from_each_page links) = set (collect_links links))"
  by (simp add: from_each_page_def Let_def dict_fromkeys_first_occurrences
      first_occurrences_set first_occurrences_distinct)

text \<open>
  A page with one case (\<open>#\<close>, \<open>a\<close>) loses it; a page with the cases \<open>a\<close>, \<open>a\<close>, \<open>b\<close>
  gives \<open>a\<close>, \<open>b\<close>.
\<close>

theorem from_each_page_single_result_witness:
  "length (collect_links [Some [35], Some [97]]) \<le> 1 \<and>
   from_each_page [Some [35], Some [97]] = [] \<and>
   2 \<le> length (collect_links [Some [35], Some [97], Some [35], Some [97], Some [35], Some [98]]) \<and>
   from_each_page [Some [35], Some [97], Some [35], Some [97], Some [35], Some [98]] = [[97], [98]]"
  using from_each_page_single_result [of "[Some [35], Some [97]]"]
    from_each_page_single_result [of "[Some [35], Some [97], Some [35], Some [97], Some [35], Some [98]]"]
  by (simp add: is_hash_def truthy_def)

section \<open>Properties of the year selection\<close>

lemma in_era_iff_selected:
  "in_era latest e y \<longleftrightarrow> determine_scraper_method latest y = Inr e"
  by (cases e) (auto simp: in_era_def determine_scraper_method_def)

text \<open>
  C4. A year outside the five ranges makes \<open>determine_scraper_method\<close> fail with the
  \<open>ValueError\<close>, and \<open>scrape_case_details_generic\<close> then returns \<open>False\<close> with the
  state untouched, whatever the procedures are: none is called. A year inside a range
  selects the procedure of that range, and no year is inside two ranges.
\<close>

theorem determine_scraper_method_ranges:
  "(\<not> (\<exists>e. in_era latest e y) \<longrightarrow>
      determine_scraper_method latest y = Inl ValueError \<and>
      scrape_case_details_generic latest procs y s = (False, s)) \<and>
   (\<forall>e. in_era latest e y \<longrightarrow>
      determine_scraper_method latest y = Inr e \<and>
      scrape_case_details_generic latest procs y s = procs e s \<and>
      (\<forall>e'. in_era latest e' y \<longrightarrow> e' = e))"
proof -
  have a: "determine_scraper_method latest y = Inl ValueError"
    if "\<not> (\<exists>e. in_era latest e y)"
  proof (cases "determine_scraper_method latest y")
    case (Inl err)
    then show ?thesis by (cases err) simp
  next
    case (Inr e)
    then show ?thesis using that in_era_iff_selected [of latest e y] by blast
  qed
  show ?thesis
    using a by (auto simp: in_era_iff_selected scrape_case_details_generic_def)
qed

theorem determine_scraper_method_ranges_witness:
  "\<not> (\<exists>e. in_era 2082 e 2082) \<and>
   determine_scraper_method 2082 2082 = Inl ValueError \<and>
   scrape_case_details_generic 2082 (\<lambda>e s. (True, Suc s)) 2082 (0::nat) = (False, 0) \<and>
   in_era 2082 E2051_to_2061 2055 \<and>
   determine_scraper_method 2082 2055 = Inr E2051_to_2061 \<and>
   scrape_case_details_generic 2082 (\<lambda>e s. (True, Suc s)) 2055 (0::nat) = (True, 1)"
proof -
  have out: "\<not> (\<exists>e. in_era 2082 e 2082)"
  proof
    assume "\<exists>e. in_era 2082 e 2082"
    then obtain e where "in_era 2082 e 2082" ..
    then show False by (cases e) (simp_all add: in_era_def)
  qed
  have inside: "in_era 2082 E2051_to_2061 2055" by (simp add: in_era_def)
  show ?thesis
    using out inside
      determine_scraper_method_ranges [of 2082 2082 "\<lambda>e s. (True, Suc s)" "0::nat"]
      determine_scraper_method_ranges [of 2082 2055 "\<lambda>e s. (True, Suc s)" "0::nat"]
    by auto
qed

section \<open>Properties of the citation and holding loop\<close>

lemma holding_tokens_nonempty: "[] \<notin> set HOLDING_TOKENS"
  by (simp add: HOLDING_TOKENS_def FAISALA_def ADESH_def FAISALA_VISARGA_def)

lemma seg_text_tahar:
  "tahar (seg_text k2 s t) =
     tahar s @ (if t \<noteq> [] \<and> (t \<in> set HOLDING_TOKENS \<or> temp_flag_tahar s) then [t] else [])"
  "temp_flag_tahar (seg_text k2 s t) =
     (temp_flag_tahar s \<or> (t \<noteq> [] \<and> t \<in> set HOLDING_TOKENS))"
  by (simp_all add: seg_text_def seg_tahar_def Let_def)

lemma seg_li_tahar:
  "tahar (seg_li k2 s t) =
     tahar s @ (if t \<noteq> [] \<and> (t \<in> set HOLDING_TOKENS \<or> temp_flag_tahar s) then [t] else [])"
  "temp_flag_tahar (seg_li k2 s t) =
     (temp_flag_tahar s \<or> (t \<noteq> [] \<and> t \<in> set HOLDING_TOKENS))"
  by (simp_all add: seg_li_def seg_tahar_def Let_def)

lemma holding_run_True: "holding_run True ts = filter (\<lambda>t. t \<noteq> []) ts"
  by (induction ts) auto

lemma holding_run_False:
  "holding_run False ts =
     dropWhile (\<lambda>t. t \<notin> set HOLDING_TOKENS) (filter (\<lambda>t. t \<noteq> []) ts)"
  by (induction ts) (auto simp: holding_run_True)

lemma holding_run_append:
  "holding_run f (xs @ ys) =
     holding_run f xs @ holding_run (f \<or> (\<exists>t\<in>set xs. t \<in> set HOLDING_TOKENS)) ys"
proof (induction xs arbitrary: f)
  case Nil
  show ?case by simp
next
  case (Cons x xs)
  show ?case
  proof (cases "x \<noteq> [] \<and> (x \<in> set HOLDING_TOKENS \<or> f)")
    case True
    then show ?thesis using Cons.IH [of True] by auto
  next
    case False
    then have "x \<notin> set HOLDING_TOKENS"
      using holding_tokens_nonempty by auto
    then show ?thesis using False Cons.IH [of f] by auto
  qed
qed

lemma seg_items_tahar:
  "tahar (seg_items k2 s lis) = tahar s @ holding_run (temp_flag_tahar s) lis \<and>
   temp_flag_tahar (seg_items k2 s lis) =
     (temp_flag_tahar s \<or> (\<exists>t\<in>set lis. t \<in> set HOLDING_TOKENS))"
proof (induction lis arbitrary: s)
  case Nil
  show ?case by simp
next
  case (Cons li lis)
  show ?case
    using Cons.IH [of "seg_li k2 s li"] holding_tokens_nonempty
    by (auto simp: seg_li_tahar)
qed

lemma seg_tags_tahar:
  "tahar (seg_tags k2 s bs) = tahar s @ holding_run (temp_flag_tahar s) (visited bs) \<and>
   temp_flag_tahar (seg_tags k2 s bs) =
     (temp_flag_tahar s \<or> (\<exists>t\<in>set (visited bs). t \<in> set HOLDING_TOKENS))"
proof (induction bs arbitrary: s)
  case Nil
  show ?case by (simp add: visited_def)
next
  case (Cons b bs)
  let ?s1 = "seg_text k2 s (tag_text b)"
  let ?s2 = "seg_items k2 ?s1 (tag_items b)"
  let ?own = "tag_text b # tag_items b"
  let ?f2 = "temp_flag_tahar s \<or> (\<exists>t\<in>set ?own. t \<in> set HOLDING_TOKENS)"
  have v: "visited (b # bs) = ?own @ visited bs"
    by (simp add: visited_def)
  have items: "tahar ?s2 = tahar ?s1 @ holding_run (temp_flag_tahar ?s1) (tag_items b)"
    "temp_flag_tahar ?s2 =
       (temp_flag_tahar ?s1 \<or> (\<exists>t\<in>set (tag_items b). t \<in> set HOLDING_TOKENS))"
    using seg_items_tahar [of k2 ?s1 "tag_items b"] by simp_all
  have head: "tahar ?s2 = tahar s @ holding_run (temp_flag_tahar s) ?own"
    using holding_tokens_nonempty by (auto simp: items seg_text_tahar)
  have flag: "temp_flag_tahar ?s2 = ?f2"
    using holding_tokens_nonempty by (auto simp: items seg_text_tahar)
  have run: "holding_run (temp_flag_tahar s) (?own @ visited bs) =
      holding_run (temp_flag_tahar s) ?own @ holding_run ?f2 (visited bs)"
    by (rule holding_run_append)
  have t: "tahar (seg_tags k2 s (b # bs)) =
      tahar s @ holding_run (temp_flag_tahar s) (visited (b # bs))"
    using Cons.IH [of ?s2] by (simp only: seg_tags.simps v run head flag append_assoc)
  have f: "temp_flag_tahar (seg_tags k2 s (b # bs)) =
      (temp_flag_tahar s \<or> (\<exists>t\<in>set (visited (b # bs)). t \<in> set HOLDING_TOKENS))"
    using Cons.IH [of ?s2] unfolding seg_tags.simps v flag by auto
  show ?case using t f by simp
qed

text \<open>
  C8. For every citation-prefix table and every run of blocks handed to the last loop, the
  holding list is the run of non-empty texts (tag texts and list items, in the order of
  the visit) from the first exact holding token on: that token and every non-empty
  text after it are in the list, and no text visited before it is.
\<close>

theorem holding_after_token:
  "tahar (segment k2 bs) =
     dropWhile (\<lambda>t. t \<notin> set HOLDING_TOKENS) (filter (\<lambda>t. t \<noteq> []) (visited bs))"
  using seg_tags_tahar [of k2 seg_init bs]
  by (simp add: segment_def seg_init_def holding_run_False)

text \<open>
  A verdict after one paragraph: the paragraph stays out of the holding list, the token,
  its list item and the paragraph after it are in it.
\<close>

theorem holding_after_token_witness:
  "tahar (segment KEYWORDS_2
     [blk [97], \<lparr>tag_text = FAISALA, tag_text_plain = FAISALA, tag_items = [[98], []]\<rparr>,
      blk [99]]) = [FAISALA, [98], [99]]"
  using holding_after_token [of KEYWORDS_2
     "[blk [97], \<lparr>tag_text = FAISALA, tag_text_plain = FAISALA, tag_items = [[98], []]\<rparr>,
       blk [99]]"]
  by (simp add: visited_def blk_def HOLDING_TOKENS_def FAISALA_def ADESH_def FAISALA_VISARGA_def)


subsection \<open>Substrings\<close>

lemma startswith_iff: "startswith t kw \<longleftrightarrow> (\<exists>ss. t = kw @ ss)"
  by (induction t kw rule: startswith.induct) auto

lemma str_in_iff: "str_in kw t \<longleftrightarrow> (\<exists>ps ss. t = ps @ kw @ ss)"
proof (induction t)
  case Nil
  show ?case by simp
next
  case (Cons c cs)
  show ?case
  proof
    assume "str_in kw (c # cs)"
    then consider "startswith (c # cs) kw" | "str_in kw cs" by auto
    then show "\<exists>ps ss. c # cs = ps @ kw @ ss"
    proof cases
      case 1
      then obtain ss where "c # cs = kw @ ss" using startswith_iff by blast
      then have "c # cs = [] @ kw @ ss" by simp
      then show ?thesis by blast
    next
      case 2
      then obtain ps ss where "cs = ps @ kw @ ss" using Cons.IH by blast
      then have "c # cs = (c # ps) @ kw @ ss" by simp
      then show ?thesis by blast
    qed
  next
    assume "\<exists>ps ss. c # cs = ps @ kw @ ss"
    then obtain ps ss where e: "c # cs = ps @ kw @ ss" by blast
    show "str_in kw (c # cs)"
    proof (cases ps)
      case Nil
      then have "startswith (c # cs) kw" using e startswith_iff by auto
      then show ?thesis by simp
    next
      case (Cons p ps')
      then have "cs = ps' @ kw @ ss" using e by simp
      then have "str_in kw cs" using Cons.IH by blast
      then show ?thesis by simp
    qed
  qed
qed

lemma str_in_refl: "str_in t t"
proof -
  have "t = [] @ t @ []" by simp
  then show ?thesis unfolding str_in_iff by blast
qed

lemma str_in_append_left: "str_in t p \<Longrightarrow> str_in t (p @ x)"
proof -
  assume "str_in t p"
  then obtain ps ss where "p = ps @ t @ ss" unfolding str_in_iff by blast
  then have "p @ x = ps @ t @ (ss @ x)" by simp
  then show ?thesis unfolding str_in_iff by blast
qed

lemma str_in_append_right: "str_in t x \<Longrightarrow> str_in t (p @ x)"
proof -
  assume "str_in t x"
  then obtain ps ss where "x = ps @ t @ ss" unfolding str_in_iff by blast
  then have "p @ x = (p @ ps) @ t @ ss" by simp
  then show ?thesis unfolding str_in_iff by blast
qed

lemma str_in_empty: "str_in [] u"
  by (cases u) simp_all

lemma str_in_join_prev:
  "str_in t p \<Longrightarrow> str_in t (join_prev p u)"
  "str_in u (join_prev p u)"
proof -
  show "str_in t p \<Longrightarrow> str_in t (join_prev p u)"
  proof (cases "p = []")
    case True
    assume "str_in t p"
    then have "t = []" using True by simp
    then show ?thesis by (simp add: str_in_empty)
  next
    case False
    assume "str_in t p"
    then show ?thesis using False by (simp add: join_prev_def str_in_append_left)
  qed
  show "str_in u (join_prev p u)"
    by (simp add: join_prev_def str_in_refl str_in_append_right)
qed

lemma kept_iff:
  "kept s t \<longleftrightarrow> t \<in> set (tahar s) \<or> (\<exists>c\<in>set (prakarans s). str_in t c) \<or> str_in t (prev s)"
  by (auto simp: kept_def list_ex_iff)

lemma seg_tahar_fields:
  "prakarans (seg_tahar s t) = prakarans s" "prev (seg_tahar s t) = prev s"
  by (auto simp: seg_tahar_def)

lemma holding_token_iff:
  "(FAISALA = t \<or> ADESH = t \<or> FAISALA_VISARGA = t) = (t \<in> set HOLDING_TOKENS)"
  by (auto simp: HOLDING_TOKENS_def)

lemma seg_text_fields:
  assumes "t \<noteq> []"
  shows "prakarans (seg_text k2 s t) =
     (if any_prefix k2 t
      then prakarans s @ (if prev s \<noteq> [] then [prev s] else []) @ [t]
             @ (if str_in SECTION_SIGN t then [t] else [])
      else if str_in SECTION_SIGN t then prakarans s @ [t]
      else if t \<in> set HOLDING_TOKENS then (if prakarans s = [] then [prev s] else prakarans s)
      else prakarans s)"
    and "prev (seg_text k2 s t) =
     (if any_prefix k2 t then []
      else if str_in SECTION_SIGN t \<or> t \<in> set HOLDING_TOKENS then prev s
      else join_prev (prev s) t)"
  using assms unfolding seg_text_def holding_token_iff
  by (simp_all add: Let_def seg_tahar_fields)

lemma seg_li_fields:
  assumes "t \<noteq> []"
  shows "prakarans (seg_li k2 s t) =
     (if any_prefix k2 t
      then prakarans s @ (if prev s \<noteq> [] then [prev s] else []) @ [t]
      else prakarans s)"
    and "prev (seg_li k2 s t) = (if any_prefix k2 t then [] else join_prev (prev s) t)"
  using assms unfolding seg_li_def
  by (simp_all add: Let_def seg_tahar_fields)

lemma seg_text_keeps:
  assumes "kept s t" and "t \<noteq> []"
  shows "kept (seg_text k2 s u) t"
proof (cases "u = []")
  case True
  then show ?thesis using assms by (simp add: seg_text_def)
next
  case False
  have sub: "set (tahar s) \<subseteq> set (tahar (seg_text k2 s u))"
    by (simp add: seg_text_tahar)
  from assms(1) consider "t \<in> set (tahar s)" | "\<exists>c\<in>set (prakarans s). str_in t c"
    | "str_in t (prev s)" unfolding kept_iff by blast
  then show ?thesis
  proof cases
    case 1
    then show ?thesis using sub unfolding kept_iff by blast
  next
    case 2
    then have "\<exists>c\<in>set (prakarans (seg_text k2 s u)). str_in t c"
      by (auto simp: seg_text_fields [OF False])
    then show ?thesis unfolding kept_iff by blast
  next
    case 3
    then have "prev s \<noteq> []" using assms(2) by auto
    then have "(\<exists>c\<in>set (prakarans (seg_text k2 s u)). str_in t c) \<or>
        str_in t (prev (seg_text k2 s u))"
      using 3 str_in_join_prev(1) [of t "prev s" u]
      by (auto simp: seg_text_fields [OF False])
    then show ?thesis unfolding kept_iff by blast
  qed
qed

lemma seg_text_keeps_own:
  assumes "u \<noteq> []"
  shows "kept (seg_text k2 s u) u"
proof -
  have "u \<in> set (tahar (seg_text k2 s u)) \<or>
      (\<exists>c\<in>set (prakarans (seg_text k2 s u)). str_in u c) \<or>
      str_in u (prev (seg_text k2 s u))"
    using assms str_in_join_prev(2) [of u "prev s"] str_in_refl [of u]
    by (auto simp: seg_text_fields [OF assms] seg_text_tahar)
  then show ?thesis unfolding kept_iff by blast
qed

lemma seg_li_keeps:
  assumes "kept s t" and "t \<noteq> []"
  shows "kept (seg_li k2 s u) t"
proof (cases "u = []")
  case True
  then show ?thesis using assms by (simp add: seg_li_def)
next
  case False
  have sub: "set (tahar s) \<subseteq> set (tahar (seg_li k2 s u))"
    by (simp add: seg_li_tahar)
  from assms(1) consider "t \<in> set (tahar s)" | "\<exists>c\<in>set (prakarans s). str_in t c"
    | "str_in t (prev s)" unfolding kept_iff by blast
  then show ?thesis
  proof cases
    case 1
    then show ?thesis using sub unfolding kept_iff by blast
  next
    case 2
    then have "\<exists>c\<in>set (prakarans (seg_li k2 s u)). str_in t c"
      by (auto simp: seg_li_fields [OF False])
    then show ?thesis unfolding kept_iff by blast
  next
    case 3
    then have "prev s \<noteq> []" using assms(2) by auto
    then have "(\<exists>c\<in>set (prakarans (seg_li k2 s u)). str_in t c) \<or>
        str_in t (prev (seg_li k2 s u))"
      using 3 str_in_join_prev(1) [of t "prev s" u]
      by (auto simp: seg_li_fields [OF False])
    then show ?thesis unfolding kept_iff by blast
  qed
qed

lemma seg_li_keeps_own:
  assumes "u \<noteq> []"
  shows "kept (seg_li k2 s u) u"
proof -
  have "(\<exists>c\<in>set (prakarans (seg_li k2 s u)). str_in u c) \<or>
      str_in u (prev (seg_li k2 s u))"
    using assms str_in_join_prev(2) [of u "prev s"] str_in_refl [of u]
    by (auto simp: seg_li_fields [OF assms])
  then show ?thesis unfolding kept_iff by blast
qed

lemma seg_items_keeps:
  "(kept s t \<or> t \<in> set lis) \<Longrightarrow> t \<noteq> [] \<Longrightarrow> kept (seg_items k2 s lis) t"
proof (induction lis arbitrary: s)
  case Nil
  then show ?case by simp
next
  case (Cons li lis)
  have "kept (seg_li k2 s li) t \<or> t \<in> set lis"
    using Cons.prems seg_li_keeps [of s t k2 li] seg_li_keeps_own [of li k2 s] by auto
  then show ?case using Cons.IH [of "seg_li k2 s li"] Cons.prems(2) by simp
qed

lemma seg_tags_keeps:
  "(kept s t \<or> t \<in> set (visited bs)) \<Longrightarrow> t \<noteq> [] \<Longrightarrow> kept (seg_tags k2 s bs) t"
proof (induction bs arbitrary: s)
  case Nil
  then show ?case by (simp add: visited_def)
next
  case (Cons b bs)
  let ?s1 = "seg_text k2 s (tag_text b)"
  let ?s2 = "seg_items k2 ?s1 (tag_items b)"
  from Cons.prems(1) consider "kept s t" | "t = tag_text b" | "t \<in> set (tag_items b)"
    | "t \<in> set (visited bs)" by (auto simp: visited_def)
  then have "kept ?s2 t \<or> t \<in> set (visited bs)"
  proof cases
    case 1
    then have "kept ?s1 t" using seg_text_keeps Cons.prems(2) by blast
    then show ?thesis using seg_items_keeps Cons.prems(2) by blast
  next
    case 2
    then have "kept ?s1 t" using seg_text_keeps_own Cons.prems(2) by blast
    then show ?thesis using seg_items_keeps Cons.prems(2) by blast
  next
    case 3
    then show ?thesis using seg_items_keeps Cons.prems(2) by blast
  next
    case 4
    then show ?thesis by simp
  qed
  then show ?case using Cons.IH [of ?s2] Cons.prems(2) by simp
qed

lemma holding_tokens_no_section: "t \<in> set HOLDING_TOKENS \<Longrightarrow> \<not> str_in SECTION_SIGN t"
  by (auto simp: HOLDING_TOKENS_def FAISALA_def ADESH_def FAISALA_VISARGA_def SECTION_SIGN_def)

text \<open>
  C7, as the code has it. A non-empty tag text that starts with a citation prefix (and
  has no section sign) flushes the pending text, when that is not empty, into the
  citation list, becomes an entry of its own and empties the pending text. A text that
  contains the section sign and starts with no prefix becomes an entry and leaves the
  pending text as it is: nothing is flushed. An exact holding token that starts with no
  prefix, when the citation list or the pending text is not empty, appends the pending
  text only if the citation list is empty, and does not empty it. Any other non-empty text is joined to the pending
  text. For a list item only the prefix test is made. Every non-empty text that is
  visited ends as an entry of the holding list or as a substring of a citation entry or
  of the pending text of the final state.
\<close>

theorem citation_flush_rule:
  "(t \<noteq> [] \<and> any_prefix k2 t \<and> \<not> str_in SECTION_SIGN t \<longrightarrow>
      prakarans (seg_text k2 s t) =
        prakarans s @ (if prev s \<noteq> [] then [prev s] else []) @ [t] \<and>
      prev (seg_text k2 s t) = []) \<and>
   (t \<noteq> [] \<and> \<not> any_prefix k2 t \<and> str_in SECTION_SIGN t \<longrightarrow>
      prakarans (seg_text k2 s t) = prakarans s @ [t] \<and> prev (seg_text k2 s t) = prev s) \<and>
   (t \<in> set HOLDING_TOKENS \<and> \<not> any_prefix k2 t \<and>
    (prakarans s \<noteq> [] \<or> prev s \<noteq> []) \<longrightarrow>
      prakarans (seg_text k2 s t) = (if prakarans s = [] then [prev s] else prakarans s) \<and>
      prev (seg_text k2 s t) = prev s) \<and>
   (t \<noteq> [] \<and> \<not> any_prefix k2 t \<and> \<not> str_in SECTION_SIGN t \<and> t \<notin> set HOLDING_TOKENS \<longrightarrow>
      prakarans (seg_text k2 s t) = prakarans s \<and>
      prev (seg_text k2 s t) = join_prev (prev s) t) \<and>
   (t \<noteq> [] \<and> any_prefix k2 t \<longrightarrow>
      prakarans (seg_li k2 s t) = prakarans s @ (if prev s \<noteq> [] then [prev s] else []) @ [t] \<and>
      prev (seg_li k2 s t) = []) \<and>
   (t \<noteq> [] \<and> \<not> any_prefix k2 t \<longrightarrow>
      prakarans (seg_li k2 s t) = prakarans s \<and> prev (seg_li k2 s t) = join_prev (prev s) t) \<and>
   (\<forall>u\<in>set (visited bs). u \<noteq> [] \<longrightarrow> kept (segment k2 bs) u)"
proof -
  have ne: "t \<in> set HOLDING_TOKENS \<Longrightarrow> t \<noteq> [] \<and> \<not> str_in SECTION_SIGN t"
    using holding_tokens_nonempty holding_tokens_no_section by auto
  have text_rules: "t \<noteq> [] \<Longrightarrow>
      prakarans (seg_text k2 s t) =
       (if any_prefix k2 t
        then prakarans s @ (if prev s \<noteq> [] then [prev s] else []) @ [t]
               @ (if str_in SECTION_SIGN t then [t] else [])
        else if str_in SECTION_SIGN t then prakarans s @ [t]
        else if t \<in> set HOLDING_TOKENS then (if prakarans s = [] then [prev s] else prakarans s)
        else prakarans s) \<and>
      prev (seg_text k2 s t) =
       (if any_prefix k2 t then []
        else if str_in SECTION_SIGN t \<or> t \<in> set HOLDING_TOKENS then prev s
        else join_prev (prev s) t)"
    using seg_text_fields [of t k2 s] by simp
  have li_rules: "t \<noteq> [] \<Longrightarrow>
      prakarans (seg_li k2 s t) =
       (if any_prefix k2 t
        then prakarans s @ (if prev s \<noteq> [] then [prev s] else []) @ [t]
        else prakarans s) \<and>
      prev (seg_li k2 s t) = (if any_prefix k2 t then [] else join_prev (prev s) t)"
    using seg_li_fields [of t k2 s] by simp
  have all_kept: "\<forall>u\<in>set (visited bs). u \<noteq> [] \<longrightarrow> kept (segment k2 bs) u"
    using seg_tags_keeps [of seg_init _ bs k2] by (simp add: segment_def)
  show ?thesis
    using ne text_rules li_rules all_kept by simp
qed

text \<open>
  The text \<open>ab\<close>, the citation \<open>(prakaran 1\<close> written with the first prefix of the table,
  then \<open>cd\<close>: the pending \<open>ab\<close> is flushed before the citation, and \<open>cd\<close> stays pending.
\<close>

theorem citation_flush_rule_witness:
  "[40, 2346, 2381, 2352, 2325, 2352, 2339, 32, 2344, 2306, 49] \<noteq> [] \<and>
   any_prefix KEYWORDS_2_2015 [40, 2346, 2381, 2352, 2325, 2352, 2339, 32, 2344, 2306, 49] \<and>
   \<not> str_in SECTION_SIGN [40, 2346, 2381, 2352, 2325, 2352, 2339, 32, 2344, 2306, 49] \<and>
   prakarans (seg_text KEYWORDS_2_2015 (seg_init\<lparr>prev := [97, 98]\<rparr>)
      [40, 2346, 2381, 2352, 2325, 2352, 2339, 32, 2344, 2306, 49]) =
     [[97, 98], [40, 2346, 2381, 2352, 2325, 2352, 2339, 32, 2344, 2306, 49]] \<and>
   [99, 100] \<in> set (visited [blk [99, 100]]) \<and>
   kept (segment KEYWORDS_2_2015 [blk [99, 100]]) [99, 100]"
  using citation_flush_rule [of "[40, 2346, 2381, 2352, 2325, 2352, 2339, 32, 2344, 2306, 49]"
      KEYWORDS_2_2015 "seg_init\<lparr>prev := [97, 98]\<rparr>" "[blk [99, 100]]"]
  by (simp add: KEYWORDS_2_2015_def any_prefix_def SECTION_SIGN_def seg_init_def visited_def
      blk_def)

text \<open>
  Against C7 as it is worded: after the pending text \<open>abc\<close>, a block that contains the
  section sign (\<open>x\<close>, the sign, \<open>y\<close>) becomes a citation, but \<open>abc\<close> is not flushed into the
  citation list: it is still pending after the block.
\<close>

theorem citation_flush_rule_counterexample:
  "prakarans (segment KEYWORDS_2 [blk [97, 98, 99], blk [120, 167, 121]]) = [[120, 167, 121]] \<and>
   prev (segment KEYWORDS_2 [blk [97, 98, 99], blk [120, 167, 121]]) = [97, 98, 99] \<and>
   tahar (segment KEYWORDS_2 [blk [97, 98, 99], blk [120, 167, 121]]) = []"
  by (simp add: segment_def seg_init_def blk_def seg_text_def seg_tahar_def Let_def
      join_prev_def KEYWORDS_2_def any_prefix_def SECTION_SIGN_def HOLDING_TOKENS_def
      FAISALA_def ADESH_def FAISALA_VISARGA_def)

section \<open>Evaluating the procedures on a given document\<close>

text \<open>
  The definitions to unfold, and congruence rules that make the simplifier evaluate the
  first argument of a bind and the scrutinee of a case before it looks at the rest.
\<close>

lemmas kw_tests = any_in_def any_eq_def any_prefix_def is_date_line_def is_holding_token_def

lemmas stores = rest_def set_ijlas_def set_adesh_miti_def set_kes_nambar_def set_bishaya_def
  set_niwedak_def set_wipakshi_def upd_def

lemmas words = NIWEDAK_def WIRUDDHA_def WIPAKSHI_def PRAKARAN_NO_def ADALAT_def MITI_def
  MITI_2_def FAISALA_def ADESH_def FAISALA_VISARGA_def

lemma bind_weak_cong: "x = y \<Longrightarrow> Option.bind x f = Option.bind y f"
  by simp

lemmas by_value = bind_weak_cong option.case_cong_weak prod.case_cong_weak list.case_cong_weak

lemmas tables = KEYWORDS_2_def KEYWORDS_3_def KEYWORDS_4_def KEYWORDS_5_def KEYWORDS_6_def
  KEYWORDS_7_def KEYWORDS_8_def KEYWORDS_9_def KEYWORDS_10_def

lemmas phases_2062 = court_phase_a_def judges_phase_2062_def after_judges_2062_def
  subject_phase_2062_def petitioner_phase_def respondent_phase_def parties_2062_def
  stores scan_init_def kw_tests checkpoint_def found_def


section \<open>The procedures on an empty block sequence\<close>

lemma finish_empty: "finish k2 [] s = s\<lparr>d_prakaran := Some [], d_thahar := Some []\<rparr>"
  by (simp add: finish_def segment_def seg_init_def)

lemma phases_2015_empty: "phases_2015_to_2044 [] = Some scan_init"
  apply (simp add: phases_2015_to_2044_def)
  apply (simp add: court_phase_a_def stores scan_init_def checkpoint_def)
  apply (simp add: judges_phase_2015_def stores checkpoint_def)
  apply (simp add: early_phase_2015_def stores checkpoint_def)
  apply (simp add: petitioner_phase_def respondent_phase_def stores checkpoint_def)
  apply (simp add: late_phase_2015_def stores checkpoint_def)
  done

lemma phases_2045_empty: "phases_2045_to_2050 [] = Some (scan_init\<lparr>d_bishaya := Some []\<rparr>)"
  apply (simp add: phases_2045_to_2050_def)
  apply (simp add: stores scan_init_def)
  apply (simp add: checkpoint_def)
  apply (simp add: judges_phase_b_def stores)
  apply (simp add: petitioner_phase_def respondent_phase_def stores)
  apply (simp add: subject_phase_2045_def stores checkpoint_def)
  done

lemma phases_2051_empty: "phases_2051_to_2061 [] = scan_init"
  apply (simp add: phases_2051_to_2061_def)
  apply (simp add: stores scan_init_def checkpoint_def)
  apply (simp add: judges_phase_b_def stores)
  apply (simp add: subject_phase_2051_def checkpoint_no_else_def stores)
  apply (simp add: petitioner_phase_guarded_def respondent_phase_guarded_def stores)
  done

lemma before_parties_2062_empty: "before_parties_2062 [] = Some scan_init"
  apply (simp add: before_parties_2062_def)
  apply (simp add: court_phase_a_def stores scan_init_def checkpoint_def)
  apply (simp add: judges_phase_2062_def stores checkpoint_def)
  apply (simp add: after_judges_2062_def stores checkpoint_def)
  apply (simp add: subject_phase_2062_def stores checkpoint_def)
  done

lemma phases_2062_empty: "phases_2062_to_2072 [] = Some scan_init"
  apply (simp add: phases_2062_to_2072_def before_parties_2062_empty)
  apply (simp add: parties_2062_def stores scan_init_def)
  apply (simp add: petitioner_phase_def respondent_phase_def stores checkpoint_def)
  done

lemma phases_2073_empty: "phases_2073_to_2080_and_beyond [] = Some scan_init"
  apply (simp add: phases_2073_to_2080_and_beyond_def after_judges_2073_def)
  apply (simp add: stores scan_init_def checkpoint_def)
  apply (simp add: judges_phase_2073_def stores)
  apply (simp add: case_phase_2073_def stores checkpoint_gt_def)
  apply (simp add: standard_phases_2073_def stores checkpoint_def)
  apply (simp add: petitioner_phase_def respondent_phase_def stores)
  done

lemma extract_empty:
  "extract_of e [] =
     Some (if e = E2045_to_2050 then empty_result\<lparr>d_bishaya := Some []\<rparr> else empty_result)"
  by (cases e)
    (simp_all add: extract_2015_to_2044_def extract_2045_to_2050_def extract_2051_to_2061_def
      extract_2062_to_2072_def extract_2073_to_2080_and_beyond_def phases_2015_empty
      phases_2045_empty phases_2051_empty phases_2062_empty phases_2073_empty finish_empty
      empty_result_def)


text \<open>
  The nine extracted columns of the record built from the final state of a procedure
  on the empty block sequence: all at their defaults, except the subject of
  \<open>scrape_case_details_2045_to_2050\<close>.
\<close>

lemma empty_sequence_columns:
  "\<exists>d. extract_of e [] = Some d \<and>
     extracted_columns (make_data with_na url mudda_type title date pg d) =
       (if e = E2045_to_2050 then unknown_columns[4 := Text []] else unknown_columns)"
proof -
  let ?d = "if e = E2045_to_2050 then empty_result\<lparr>d_bishaya := Some []\<rparr> else empty_result"
  have a: "extract_of e [] = Some ?d" by (rule extract_empty)
  have b: "extracted_columns (make_data with_na url mudda_type title date pg ?d) =
       (if e = E2045_to_2050 then unknown_columns[4 := Text []] else unknown_columns)"
    by (simp add: extracted_columns_def make_data_def unknown_columns_def empty_result_def
        scan_init_def get_or_na_def dumps_or_empty_def str_or_list_def)
  show ?thesis using a b by blast
qed

lemma scrape_2045_empty_region:
  "scrape_case_details_2045_to_2050 0 [] None (Some (plain_page (Some []))) empty_db =
     (True, save_to_sqlite 0
        (make_data True [] None NA NA (plain_page (Some [])) (empty_result\<lparr>d_bishaya := Some []\<rparr>))
        empty_db)"
  using extract_empty [of E2045_to_2050]
  by (simp add: scrape_case_details_2045_to_2050_def url_exists_def empty_db_def
      scrape_body_def header_def decision_title_guarded_def decision_date_guarded_def
      details_of_def plain_page_def)

lemma scrape_2045_no_region:
  "scrape_case_details_2045_to_2050 0 [] None (Some (plain_page None)) empty_db =
     (True, save_to_sqlite 0 (make_data True [] None NA NA (plain_page None) scan_init) empty_db)"
  by (simp add: scrape_case_details_2045_to_2050_def url_exists_def empty_db_def
      scrape_body_def header_def decision_title_guarded_def decision_date_guarded_def
      details_of_def plain_page_def)

lemma scrape_2015_empty_region:
  "scrape_case_details_2015_to_2044 0 [] None (Some (plain_page (Some []))) empty_db =
     (True, save_to_sqlite 0 (make_data True [] None NA NA (plain_page (Some [])) empty_result)
        empty_db)"
  using extract_empty [of E2015_to_2044]
  by (simp add: scrape_case_details_2015_to_2044_def url_exists_def empty_db_def
      scrape_body_def header_def decision_title_guarded_def decision_date_guarded_def
      details_of_def plain_page_def)

text \<open>
  C3 at the failing input. The page has a detail region with no block in it, and the
  table is empty. \<open>scrape_case_details_2045_to_2050\<close> ends with the subject key set to the
  empty string and saves one row whose subject column is the empty string. The same
  procedure saves \<open>N/A\<close> when the page has no detail region at all, and
  \<open>scrape_case_details_2015_to_2044\<close> saves \<open>N/A\<close> on the same page.
\<close>

theorem empty_region_subject_2045:
  "extract_2045_to_2050 [] = Some (empty_result\<lparr>d_bishaya := Some []\<rparr>) \<and>
   map (\<lambda>r. bishaya (row_data r))
     (cases (snd (scrape_case_details_2045_to_2050 0 [] None (Some (plain_page (Some [])))
        empty_db))) = [Text []] \<and>
   map (\<lambda>r. bishaya (row_data r))
     (cases (snd (scrape_case_details_2045_to_2050 0 [] None (Some (plain_page None))
        empty_db))) = [Text NA] \<and>
   map (\<lambda>r. bishaya (row_data r))
     (cases (snd (scrape_case_details_2015_to_2044 0 [] None (Some (plain_page (Some [])))
        empty_db))) = [Text NA] \<and>
   Text [] \<noteq> Text NA"
  unfolding scrape_2045_empty_region scrape_2045_no_region scrape_2015_empty_region
  using extract_empty [of E2045_to_2050]
  by (simp add: save_to_sqlite_def Let_def empty_db_def make_data_def get_or_na_def
      empty_result_def scan_init_def NA_def)

section \<open>Saving a record twice\<close>

lemma fold_max_bounded: "\<forall>x\<in>set xs. x \<le> a \<Longrightarrow> fold max xs (a::nat) = a"
  by (induction xs) (simp_all add: max_absorb2)

lemma fold_max_ge: "(a::nat) \<le> fold max xs a \<and> (\<forall>x\<in>set xs. x \<le> fold max xs a)"
proof (induction xs arbitrary: a)
  case Nil
  show ?case by simp
next
  case (Cons y ys)
  have "max y a \<le> fold max ys (max y a)" "\<forall>x\<in>set ys. x \<le> fold max ys (max y a)"
    using Cons.IH [of "max y a"] by simp_all
  then show ?case by auto
qed

lemma save_to_sqlite_cases:
  "cases (save_to_sqlite now d s) =
     filter (\<lambda>r. link (row_data r) \<noteq> link d) (cases s)
       @ [\<lparr>row_id = cases_seq (save_to_sqlite now d s), row_data = d, created_at = now\<rparr>]"
  "cases_seq (save_to_sqlite now d s) = Suc (fold max (map row_id (cases s)) (cases_seq s))"
  by (simp_all add: save_to_sqlite_def Let_def)

text \<open>After a save no row has an id above the counter, so the next id is the counter plus one.\<close>

lemma save_to_sqlite_next_id:
  "cases_seq (save_to_sqlite t2 d' (save_to_sqlite t1 d s)) = Suc (cases_seq (save_to_sqlite t1 d s))"
proof -
  let ?s1 = "save_to_sqlite t1 d s"
  have "\<forall>x\<in>set (map row_id (cases ?s1)). x \<le> cases_seq ?s1"
    using fold_max_ge [of "cases_seq s" "map row_id (cases s)"]
    by (auto simp: save_to_sqlite_cases)
  then have "fold max (map row_id (cases ?s1)) (cases_seq ?s1) = cases_seq ?s1"
    by (rule fold_max_bounded)
  then show ?thesis by (simp add: save_to_sqlite_cases(2) [of t2 d' ?s1])
qed

text \<open>
  C9, as the code has it. After \<open>save_to_sqlite\<close> has stored a record at time \<open>t1\<close>,
  storing the same record again at time \<open>t2\<close> leaves the written columns of every row as
  they were, row by row, and leaves the rows of the other links untouched. The link
  has one row after each call; the second call replaces it by a new row with the same
  written columns, whose id is one more than the id given by the first call and whose
  \<open>created_at\<close> is \<open>t2\<close>.
\<close>

theorem upsert_replaces_row:
  "map row_data (cases (save_to_sqlite t2 d (save_to_sqlite t1 d s))) =
     map row_data (cases (save_to_sqlite t1 d s)) \<and>
   filter (\<lambda>r. link (row_data r) \<noteq> link d) (cases (save_to_sqlite t2 d (save_to_sqlite t1 d s))) =
     filter (\<lambda>r. link (row_data r) \<noteq> link d) (cases (save_to_sqlite t1 d s)) \<and>
   filter (\<lambda>r. link (row_data r) = link d) (cases (save_to_sqlite t1 d s)) =
     [\<lparr>row_id = cases_seq (save_to_sqlite t1 d s), row_data = d, created_at = t1\<rparr>] \<and>
   filter (\<lambda>r. link (row_data r) = link d) (cases (save_to_sqlite t2 d (save_to_sqlite t1 d s))) =
     [\<lparr>row_id = Suc (cases_seq (save_to_sqlite t1 d s)), row_data = d, created_at = t2\<rparr>]"
proof -
  let ?s1 = "save_to_sqlite t1 d s"
  let ?s2 = "save_to_sqlite t2 d ?s1"
  have c1: "cases ?s1 = filter (\<lambda>r. link (row_data r) \<noteq> link d) (cases s)
      @ [\<lparr>row_id = cases_seq ?s1, row_data = d, created_at = t1\<rparr>]"
    by (rule save_to_sqlite_cases(1))
  have c2: "cases ?s2 = filter (\<lambda>r. link (row_data r) \<noteq> link d) (cases ?s1)
      @ [\<lparr>row_id = Suc (cases_seq ?s1), row_data = d, created_at = t2\<rparr>]"
    using save_to_sqlite_cases(1) [of t2 d ?s1] save_to_sqlite_next_id [of t2 d t1 d s] by simp
  have others: "filter (\<lambda>r. link (row_data r) \<noteq> link d) (cases ?s1) =
      filter (\<lambda>r. link (row_data r) \<noteq> link d) (cases s)"
    by (subst c1) simp
  have a: "map row_data (cases ?s2) = map row_data (cases ?s1)"
    by (subst c2, subst others, subst c1) simp
  have b: "filter (\<lambda>r. link (row_data r) \<noteq> link d) (cases ?s2) =
      filter (\<lambda>r. link (row_data r) \<noteq> link d) (cases ?s1)"
    by (subst c2) simp
  have c: "filter (\<lambda>r. link (row_data r) = link d) (cases ?s1) =
      [\<lparr>row_id = cases_seq ?s1, row_data = d, created_at = t1\<rparr>]"
    by (subst c1) simp
  have e: "filter (\<lambda>r. link (row_data r) = link d) (cases ?s2) =
      [\<lparr>row_id = Suc (cases_seq ?s1), row_data = d, created_at = t2\<rparr>]"
    by (subst c2, subst others) simp
  show ?thesis using a b c e by simp
qed

text \<open>One record saved at time 5 and again at time 7 into the empty table.\<close>

theorem upsert_replaces_row_witness:
  "map row_data (cases (save_to_sqlite 7 (make_data True NIWEDAK None NA NA (plain_page None) scan_init)
      (save_to_sqlite 5 (make_data True NIWEDAK None NA NA (plain_page None) scan_init) empty_db))) =
     [make_data True NIWEDAK None NA NA (plain_page None) scan_init]"
  using upsert_replaces_row [of 7 "make_data True NIWEDAK None NA NA (plain_page None) scan_init"
      5 empty_db]
  by (simp add: save_to_sqlite_def Let_def empty_db_def)

text \<open>
  Against C9 as it is worded: the second call does change the table. \<open>INSERT OR
  REPLACE\<close> deletes the row of the link and inserts a new one: the row has id 1 and
  time 5 after the first call, id 2 and time 7 after the second.
\<close>

theorem upsert_replaces_row_counterexample:
  "map (\<lambda>r. (row_id r, created_at r))
     (cases (save_to_sqlite 5 (make_data True NIWEDAK None NA NA (plain_page None) scan_init)
        empty_db)) = [(1, 5)] \<and>
   map (\<lambda>r. (row_id r, created_at r))
     (cases (save_to_sqlite 7 (make_data True NIWEDAK None NA NA (plain_page None) scan_init)
        (save_to_sqlite 5 (make_data True NIWEDAK None NA NA (plain_page None) scan_init)
           empty_db))) = [(2, 7)]"
  by (simp add: save_to_sqlite_def Let_def empty_db_def)

section \<open>A bare label in the last block\<close>

lemma phases_2015_bare_label: "phases_2015_to_2044 [blk NIWEDAK] = None"
  apply (simp add: phases_2015_to_2044_def blk_def NIWEDAK_def)
  apply (simp add: court_phase_a_def stores scan_init_def kw_tests KEYWORDS_6_2015_def
      KEYWORDS_8_def checkpoint_def)
  apply (simp add: judges_phase_2015_def stores kw_tests KEYWORDS_8_def KEYWORDS_3_def
      checkpoint_def)
  apply (simp add: early_phase_2015_def stores kw_tests KEYWORDS_3_def KEYWORDS_4_2015_def
      KEYWORDS_5_2015_def KEYWORDS_7_2015_def checkpoint_def)
  apply (simp add: petitioner_phase_def stores kw_tests KEYWORDS_3_def)
  done

text \<open>
  C2 at the failing input. The block sequence is the single block whose text is the
  petitioner word \<open>niwedak\<close>, with no list after it. In
  \<open>scrape_case_details_2015_to_2044\<close> the petitioner loop finds the block equal to a
  keyword, moves to the next index and reads \<open>tags[ind]\<close> there: the read is out of
  range. The \<open>IndexError\<close> is caught by the procedure, which returns \<open>False\<close>; nothing is
  saved, so the record of the document is lost.
\<close>

theorem bare_label_at_end_loses_record:
  "extract_2015_to_2044 [blk NIWEDAK] = None \<and>
   scrape_case_details_2015_to_2044 0 [] None (Some (plain_page (Some [blk NIWEDAK]))) empty_db
     = (False, empty_db)"
  by (simp add: extract_2015_to_2044_def phases_2015_bare_label
      scrape_case_details_2015_to_2044_def url_exists_def empty_db_def scrape_body_def
      header_def details_of_def plain_page_def)


section \<open>The checkpoint step\<close>

text \<open>
  With the step as it is written after every other phase, a phase that starts at the
  checkpoint and runs to the end of the sequence leaves the cursor where it was.
\<close>

lemma checkpoint_reverts:
  "n \<le> ind s' \<Longrightarrow> temp_ind_32 s' = ind s \<Longrightarrow> ind (checkpoint n s') = ind s"
  by (simp add: checkpoint_def)

lemma checkpoint_cursor_is_checkpoint: "ind (checkpoint n s) = temp_ind_32 (checkpoint n s)"
  by (simp add: checkpoint_def)

lemma petitioner_after_subject_2051:
  "ind (checkpoint_no_else 2 (subject_phase_2051 [BISHAYA, [120]] scan_init)) = 1 \<and>
   party_scan_guarded KEYWORDS_3
     (rest [BISHAYA, [120]] (checkpoint_no_else 2 (subject_phase_2051 [BISHAYA, [120]] scan_init)))
     1 = (2, None) \<and>
   ind (checkpoint 2 (petitioner_phase_guarded KEYWORDS_3 [BISHAYA, [120]]
     (checkpoint_no_else 2 (subject_phase_2051 [BISHAYA, [120]] scan_init)))) = 0"
  apply (simp add: subject_phase_2051_def is_subject_line_2051_def stores scan_init_def
      BISHAYA_def checkpoint_no_else_def)
  apply (simp add: petitioner_phase_guarded_def stores kw_tests KEYWORDS_3_def checkpoint_def)
  done

lemma after_judges_2073_example:
  "after_judges_2073 [ADALAT, []] 2 = scan_init\<lparr>ind := 1, temp_ind_32 := 1, d_ijlas := Some ADALAT\<rparr>"
  apply (simp add: after_judges_2073_def ADALAT_def)
  apply (simp add: stores scan_init_def kw_tests KEYWORDS_6_def checkpoint_def)
  apply (simp add: judges_phase_2073_def stores)
  done

lemma phases_2073_drift_example:
  "phases_2073_to_2080_and_beyond [blk ADALAT, blk []] =
     Some (scan_init\<lparr>ind := 2, temp_ind_32 := 2, d_ijlas := Some ADALAT\<rparr>)"
  apply (simp add: phases_2073_to_2080_and_beyond_def blk_def Let_def
      after_judges_2073_example [unfolded numeral_2_eq_2])
  apply (simp add: case_phase_2073_def standard_phases_2073_def petitioner_phase_def
      respondent_phase_def stores scan_init_def checkpoint_gt_def checkpoint_def
      cong: by_value)
  done

text \<open>
  C1 at the failing input. The block sequence is the bench word \<open>adalat\<close> followed by a
  block with an empty text, read by \<open>scrape_case_details_2073_to_2080_and_beyond\<close>. After
  the court and judges phases the cursor is 1. The case-number loop finds no non-empty
  block and runs to the end, index 2. The step after it tests \<open>ind > n\<close>, which fails for
  \<open>ind = n = 2\<close>, so the cursor stays 2 and the checkpoint becomes 2: the cursor after
  the failed phase is not the cursor before it. The step of the other phases
  (\<open>ind >= n\<close>) would have put it back to 1. The phases end with the cursor and the
  checkpoint at 2.
\<close>

theorem case_number_phase_drifts:
  "ind (after_judges_2073 [ADALAT, []] 2) = 1 \<and>
   case_or_subject KEYWORDS_5 (rest [ADALAT, []] (after_judges_2073 [ADALAT, []] 2))
     (ind (after_judges_2073 [ADALAT, []] 2)) = (2, None) \<and>
   ind (checkpoint_gt 2 (fst (case_phase_2073 [ADALAT, []] (after_judges_2073 [ADALAT, []] 2)))) = 2 \<and>
   ind (checkpoint 2 (fst (case_phase_2073 [ADALAT, []] (after_judges_2073 [ADALAT, []] 2)))) = 1 \<and>
   phases_2073_to_2080_and_beyond [blk ADALAT, blk []] =
     Some (scan_init\<lparr>ind := 2, temp_ind_32 := 2, d_ijlas := Some ADALAT\<rparr>)"
  by (simp add: phases_2073_drift_example after_judges_2073_example case_phase_2073_def
      rest_def scan_init_def checkpoint_gt_def checkpoint_def)


section \<open>The petitioner and respondent loop\<close>









section \<open>Several petitioners and respondents\<close>

lemma upto_first_Cons:
  "upto_first P (x # xs) = (if P x then [x] else x # upto_first P xs)"
  by (simp add: upto_first_def)

lemma case_numbers_filter:
  "case_numbers k10 k2 k7 ts =
     filter (\<lambda>t. any_in k10 t)
       (upto_first (\<lambda>t. any_prefix k2 t \<or> any_eq k7 t) (filter (\<lambda>t. t \<noteq> []) ts))"
  by (induction ts) (simp_all add: upto_first_Cons upto_first_def)

lemma checkpoint_parties [simp]:
  "d_niwedak (checkpoint n s) = d_niwedak s" "d_wipakshi (checkpoint n s) = d_wipakshi s"
  by (simp_all add: checkpoint_def)

lemma finish_parties [simp]:
  "d_niwedak (finish k2 tags s) = d_niwedak s" "d_wipakshi (finish k2 tags s) = d_wipakshi s"
  "d_kes_nambar (finish k2 tags s) = d_kes_nambar s"
  by (simp_all add: finish_def Let_def)

lemma court_phase_a_parties:
  "court_phase_a k6 k8 ts s = Some s' \<Longrightarrow>
     d_niwedak s' = d_niwedak s \<and> d_wipakshi s' = d_wipakshi s"
  by (auto simp: court_phase_a_def set_ijlas_def)

lemma judges_phase_2062_parties:
  "judges_phase_2062 ts s = Some (s', f) \<Longrightarrow>
     d_niwedak s' = d_niwedak s \<and> d_wipakshi s' = d_wipakshi s"
  by (auto simp: judges_phase_2062_def split: option.splits prod.splits)

lemma after_judges_2062_parties:
  "after_judges_2062 f ts s = (s', g) \<Longrightarrow>
     d_niwedak s' = d_niwedak s \<and> d_wipakshi s' = d_wipakshi s"
  by (auto simp: after_judges_2062_def set_adesh_miti_def split: if_splits option.splits prod.splits)

lemma subject_phase_2062_parties:
  "d_niwedak (subject_phase_2062 f ts s) = d_niwedak s \<and>
   d_wipakshi (subject_phase_2062 f ts s) = d_wipakshi s"
  by (simp add: subject_phase_2062_def set_kes_nambar_def set_bishaya_def)

lemma before_parties_2062_parties:
  assumes "before_parties_2062 tags = Some s"
  shows "d_niwedak s = None \<and> d_wipakshi s = None"
proof -
  let ?ts = "map tag_text tags"
  let ?n = "length tags"
  from assms obtain s1 where 1: "court_phase_a KEYWORDS_6 KEYWORDS_8 ?ts scan_init = Some s1"
    by (auto simp: before_parties_2062_def Let_def split: Option.bind_splits)
  from assms 1 obtain s2 f where 2: "judges_phase_2062 ?ts (checkpoint ?n s1) = Some (s2, f)"
    by (auto simp: before_parties_2062_def Let_def split: Option.bind_splits)
  obtain s3 g where 3: "after_judges_2062 f ?ts (checkpoint ?n s2) = (s3, g)"
    by (cases "after_judges_2062 f ?ts (checkpoint ?n s2)") auto
  have s: "s = checkpoint ?n (subject_phase_2062 g ?ts (checkpoint ?n s3))"
    using assms 1 2 3 by (simp add: before_parties_2062_def Let_def)
  have "d_niwedak s1 = None \<and> d_wipakshi s1 = None"
    using court_phase_a_parties [OF 1] by (simp add: scan_init_def)
  then have "d_niwedak s2 = None \<and> d_wipakshi s2 = None"
    using judges_phase_2062_parties [OF 2] by simp
  then have "d_niwedak s3 = None \<and> d_wipakshi s3 = None"
    using after_judges_2062_parties [OF 3] by simp
  then show ?thesis
    using subject_phase_2062_parties [of g ?ts "checkpoint ?n s3"] by (simp add: s)
qed

lemma found_length: "length (found v) \<le> 1"
  by (simp add: found_def split: option.splits)

lemma pairs_2062_lengths:
  "pairs_2062 c ts n s app opp = Some (s', app', opp') \<Longrightarrow>
     length app' \<le> length app + c \<and> length opp' \<le> length opp + c"
proof (induction c arbitrary: s app opp)
  case 0
  then show ?case by simp
next
  case (Suc c)
  from Suc.prems obtain i1 p where 1: "party_scan KEYWORDS_3 (rest ts s) (ind s) = Some (i1, p)"
    by (auto split: option.splits)
  let ?s1 = "checkpoint n (s\<lparr>ind := i1\<rparr>)"
  from Suc.prems 1 obtain i2 r where 2: "party_scan KEYWORDS_4 (rest ts ?s1) (ind ?s1) = Some (i2, r)"
    by (auto simp: Let_def split: option.splits)
  have "pairs_2062 c ts n (checkpoint n (?s1\<lparr>ind := i2\<rparr>)) (app @ found p) (opp @ found r)
      = Some (s', app', opp')"
    using Suc.prems 1 2 by (simp add: Let_def)
  then have "length app' \<le> length (app @ found p) + c \<and> length opp' \<le> length (opp @ found r) + c"
    by (rule Suc.IH)
  then show ?case using found_length [of p] found_length [of r] by simp
qed

lemma petitioner_phase_not_list:
  "petitioner_phase k ts s = Some s' \<Longrightarrow> not_list (d_niwedak s) \<Longrightarrow>
     not_list (d_niwedak s') \<and> d_wipakshi s' = d_wipakshi s"
  by (auto simp: petitioner_phase_def set_niwedak_def upd_def not_list_def
      split: option.splits pyval.splits)

lemma respondent_phase_not_list:
  "respondent_phase k ts s = Some s' \<Longrightarrow> not_list (d_wipakshi s) \<Longrightarrow>
     not_list (d_wipakshi s') \<and> d_niwedak s' = d_niwedak s"
  by (auto simp: respondent_phase_def set_wipakshi_def upd_def not_list_def
      split: option.splits pyval.splits)

lemma parties_2062_single:
  assumes "parties_2062 ts n s = Some s'"
    and "count_versus KEYWORDS_9 KEYWORDS_2 (rest ts s) \<le> 1"
    and "not_list (d_niwedak s)" and "not_list (d_wipakshi s)"
  shows "not_list (d_niwedak s') \<and> not_list (d_wipakshi s')"
proof -
  from assms(1,2) obtain s1 where 1: "petitioner_phase KEYWORDS_3 ts s = Some s1"
    by (auto simp: parties_2062_def Let_def split: Option.bind_splits)
  from assms(1,2) 1 obtain s2 where 2: "respondent_phase KEYWORDS_4 ts (checkpoint n s1) = Some s2"
    by (auto simp: parties_2062_def Let_def split: Option.bind_splits)
  have s': "s' = checkpoint n s2"
    using assms(1,2) 1 2 by (simp add: parties_2062_def Let_def)
  have a: "not_list (d_niwedak s1) \<and> d_wipakshi s1 = d_wipakshi s"
    using petitioner_phase_not_list [OF 1 assms(3)] .
  have "not_list (d_wipakshi (checkpoint n s1))" using a assms(4) by simp
  then have "not_list (d_wipakshi s2) \<and> d_niwedak s2 = d_niwedak (checkpoint n s1)"
    using respondent_phase_not_list [OF 2] by blast
  then show ?thesis using a by (simp add: s')
qed

lemma parties_2062_many:
  assumes "parties_2062 ts n s = Some s'"
    and "count_versus KEYWORDS_9 KEYWORDS_2 (rest ts s) > 1"
  shows "\<exists>s0 app opp.
     pairs_2062 (count_versus KEYWORDS_9 KEYWORDS_2 (rest ts s)) ts n s [] [] = Some (s0, app, opp) \<and>
     d_niwedak s' = Some (PList app) \<and> d_wipakshi s' = Some (PList opp) \<and>
     length app \<le> count_versus KEYWORDS_9 KEYWORDS_2 (rest ts s) \<and>
     length opp \<le> count_versus KEYWORDS_9 KEYWORDS_2 (rest ts s) \<and>
     d_kes_nambar s' = Some (PList (case_numbers KEYWORDS_10 KEYWORDS_2 KEYWORDS_7 ts))"
proof -
  let ?c = "count_versus KEYWORDS_9 KEYWORDS_2 (rest ts s)"
  from assms obtain s0 app opp where 1: "pairs_2062 ?c ts n s [] [] = Some (s0, app, opp)"
    by (auto simp: parties_2062_def Let_def split: Option.bind_splits)
  have s': "s' = s0\<lparr>d_kes_nambar := Some (PList (case_numbers KEYWORDS_10 KEYWORDS_2 KEYWORDS_7 ts)),
      d_niwedak := Some (PList app), d_wipakshi := Some (PList opp)\<rparr>"
    using assms 1 by (simp add: parties_2062_def Let_def)
  have "length app \<le> ?c \<and> length opp \<le> ?c"
    using pairs_2062_lengths [OF 1] by simp
  then show ?thesis using 1 by (simp add: s')
qed



lemma not_list_text: "not_list v \<Longrightarrow> \<exists>t. str_or_list v = Text t"
  by (auto simp: not_list_def str_or_list_def split: option.splits pyval.splits)

text \<open>
  C5, as the code has it, for \<open>scrape_case_details_2062_to_2072\<close> when it ends without an
  exception. Let \<open>s\<close> be the state after the phases that come before the parties, and
  count the non-empty blocks that are exactly a versus marker from the cursor of \<open>s\<close> up
  to and with the first block that starts with a citation prefix. When the count is at
  most one, the petitioner and the respondent are not lists: each is a string or is
  absent, and is saved as a text. When the count is two or more, the pair loop runs once for
  every marker counted, and the case number, the petitioner and the respondent are
  lists; the petitioner list and the respondent list are the two lists the pair loop
  built, each with at most as many entries as the count, and
  the case numbers are the non-empty blocks that contain a case-number code, taken
  from the first block of the document up to and with the first non-empty block that
  starts with a citation prefix or is exactly a word of \<open>KEYWORDS_7\<close>.
\<close>

theorem multi_party_detection:
  assumes "before_parties_2062 tags = Some s" and "extract_2062_to_2072 tags = Some d"
  shows "(count_versus KEYWORDS_9 KEYWORDS_2 (rest (map tag_text tags) s) \<le> 1 \<longrightarrow>
            not_list (d_niwedak d) \<and> not_list (d_wipakshi d) \<and>
            (\<exists>t. str_or_list (d_niwedak d) = Text t) \<and>
            (\<exists>t. str_or_list (d_wipakshi d) = Text t)) \<and>
         (count_versus KEYWORDS_9 KEYWORDS_2 (rest (map tag_text tags) s) > 1 \<longrightarrow>
            (\<exists>s0 app opp.
               pairs_2062 (count_versus KEYWORDS_9 KEYWORDS_2 (rest (map tag_text tags) s))
                 (map tag_text tags) (length tags) s [] [] = Some (s0, app, opp) \<and>
               d_niwedak d = Some (PList app) \<and> d_wipakshi d = Some (PList opp) \<and>
               length app \<le> count_versus KEYWORDS_9 KEYWORDS_2 (rest (map tag_text tags) s) \<and>
               length opp \<le> count_versus KEYWORDS_9 KEYWORDS_2 (rest (map tag_text tags) s) \<and>
               d_kes_nambar d =
                 Some (PList (filter (any_in KEYWORDS_10)
                   (upto_first (\<lambda>t. any_prefix KEYWORDS_2 t \<or> any_eq KEYWORDS_7 t)
                      (filter (\<lambda>t. t \<noteq> []) (map tag_text tags)))))))"
proof -
  let ?ts = "map tag_text tags"
  let ?c = "count_versus KEYWORDS_9 KEYWORDS_2 (rest ?ts s)"
  from assms obtain s' where p: "parties_2062 ?ts (length tags) s = Some s'"
    and d: "d = finish KEYWORDS_2 tags s'"
    by (auto simp: extract_2062_to_2072_def phases_2062_to_2072_def)
  have none: "d_niwedak s = None \<and> d_wipakshi s = None"
    using before_parties_2062_parties [OF assms(1)] .
  have single: "not_list (d_niwedak d) \<and> not_list (d_wipakshi d) \<and>
      (\<exists>t. str_or_list (d_niwedak d) = Text t) \<and> (\<exists>t. str_or_list (d_wipakshi d) = Text t)"
    if "?c \<le> 1"
  proof -
    have "not_list (d_niwedak s') \<and> not_list (d_wipakshi s')"
      using parties_2062_single [OF p that] none by (simp add: not_list_def)
    then show ?thesis using not_list_text by (simp add: d)
  qed
  have many: "\<exists>s0 app opp.
      pairs_2062 ?c ?ts (length tags) s [] [] = Some (s0, app, opp) \<and>
      d_niwedak d = Some (PList app) \<and> d_wipakshi d = Some (PList opp) \<and>
      length app \<le> ?c \<and> length opp \<le> ?c \<and>
      d_kes_nambar d =
        Some (PList (filter (any_in KEYWORDS_10)
          (upto_first (\<lambda>t. any_prefix KEYWORDS_2 t \<or> any_eq KEYWORDS_7 t)
             (filter (\<lambda>t. t \<noteq> []) ?ts))))"
    if "?c > 1"
    using parties_2062_many [OF p that] by (simp add: d case_numbers_filter)
  show ?thesis using single many by blast
qed

lemma before_parties_two_cases:
  "before_parties_2062 two_cases =
     Some (scan_init\<lparr>d_nyayadhish := Some [], d_kes_nambar := Some (PStr [67, 73, 32, 49])\<rparr>)"
  by (simp add: before_parties_2062_def Let_def two_cases_def blk_def words phases_2062 tables
      cong: by_value)

lemma count_two_cases:
  "count_versus KEYWORDS_9 KEYWORDS_2 (map tag_text two_cases) = 2"
  by (simp add: two_cases_def blk_def words kw_tests tables)

lemma extract_two_cases:
  "extract_2062_to_2072 two_cases =
     Some \<lparr>ind = 8, temp_ind_32 = 8, d_ijlas = None, d_nyayadhish = Some [],
       d_adesh_miti = None,
       d_kes_nambar = Some (PList [[67, 73, 32, 49], [67, 73, 32, 50]]),
       d_bishaya = None,
       d_niwedak = Some (PList [NIWEDAK @ [32, 65], NIWEDAK @ [32, 67]]),
       d_wipakshi = Some (PList [WIPAKSHI @ [32, 66], WIPAKSHI @ [32, 68]]),
       d_prakaran = Some [PRAKARAN_NO], d_thahar = Some []\<rparr>"
  apply (simp add: extract_2062_to_2072_def phases_2062_to_2072_def before_parties_two_cases)
  apply (simp add: Let_def two_cases_def blk_def words phases_2062 tables numeral_2_eq_2
      finish_def segment_def seg_init_def seg_text_def seg_tahar_def HOLDING_TOKENS_def
      SECTION_SIGN_def
      cong: by_value)
  done



lemma before_parties_one_case:
  "before_parties_2062 one_case = Some (scan_init\<lparr>d_nyayadhish := Some []\<rparr>)"
  by (simp add: before_parties_2062_def Let_def one_case_def blk_def words phases_2062 tables
      cong: by_value)

lemma count_one_case:
  "count_versus KEYWORDS_9 KEYWORDS_2 (map tag_text one_case) = 1"
  by (simp add: one_case_def blk_def words kw_tests tables)

lemma extract_one_case:
  "extract_2062_to_2072 one_case =
     Some \<lparr>ind = 3, temp_ind_32 = 3, d_ijlas = None, d_nyayadhish = Some [],
       d_adesh_miti = None, d_kes_nambar = None, d_bishaya = None,
       d_niwedak = Some (PStr (NIWEDAK @ [32, 65])),
       d_wipakshi = Some (PStr (WIPAKSHI @ [32, 66])),
       d_prakaran = Some [PRAKARAN_NO], d_thahar = Some []\<rparr>"
  apply (simp add: extract_2062_to_2072_def phases_2062_to_2072_def before_parties_one_case)
  apply (simp add: Let_def one_case_def blk_def words phases_2062 tables
      finish_def segment_def seg_init_def seg_text_def seg_tahar_def HOLDING_TOKENS_def
      SECTION_SIGN_def
      cong: by_value)
  done

lemma before_parties_two_markers:
  "before_parties_2062 two_markers = Some (scan_init\<lparr>d_nyayadhish := Some []\<rparr>)"
  by (simp add: before_parties_2062_def Let_def two_markers_def blk_def words phases_2062 tables
      cong: by_value)

text \<open>
  The document of two cases gives two petitioners, two respondents and two case
  numbers; the document of one case gives a petitioner and a respondent that are
  strings.
\<close>

theorem multi_party_detection_witness:
  "before_parties_2062 two_cases =
     Some (scan_init\<lparr>d_nyayadhish := Some [], d_kes_nambar := Some (PStr [67, 73, 32, 49])\<rparr>) \<and>
   count_versus KEYWORDS_9 KEYWORDS_2 (map tag_text two_cases) = 2 \<and>
   map_option d_niwedak (extract_2062_to_2072 two_cases) =
     Some (Some (PList [NIWEDAK @ [32, 65], NIWEDAK @ [32, 67]])) \<and>
   map_option d_wipakshi (extract_2062_to_2072 two_cases) =
     Some (Some (PList [WIPAKSHI @ [32, 66], WIPAKSHI @ [32, 68]])) \<and>
   map_option d_kes_nambar (extract_2062_to_2072 two_cases) =
     Some (Some (PList [[67, 73, 32, 49], [67, 73, 32, 50]])) \<and>
   before_parties_2062 one_case = Some (scan_init\<lparr>d_nyayadhish := Some []\<rparr>) \<and>
   count_versus KEYWORDS_9 KEYWORDS_2 (map tag_text one_case) = 1 \<and>
   map_option (\<lambda>d. not_list (d_niwedak d) \<and> not_list (d_wipakshi d))
     (extract_2062_to_2072 one_case) = Some True"
  using multi_party_detection [OF before_parties_two_cases extract_two_cases]
    multi_party_detection [OF before_parties_one_case extract_one_case]
  by (simp add: before_parties_two_cases extract_two_cases count_two_cases
      before_parties_one_case extract_one_case count_one_case rest_def scan_init_def)

text \<open>
  Against C5 as it is worded: a petitioner line followed by two versus markers, with no
  citation after them. Two markers are counted and the three fields are lists, but
  their lengths are 0 (case numbers), 1 (petitioners) and 0 (respondents).
\<close>

theorem multi_party_detection_counterexample:
  "count_versus KEYWORDS_9 KEYWORDS_2 (map tag_text two_markers) = 2 \<and>
   extract_2062_to_2072 two_markers =
     Some \<lparr>ind = 1, temp_ind_32 = 1, d_ijlas = None, d_nyayadhish = Some [],
       d_adesh_miti = None, d_kes_nambar = Some (PList []), d_bishaya = None,
       d_niwedak = Some (PList [NIWEDAK @ [32, 65]]),
       d_wipakshi = Some (PList []), d_prakaran = Some [], d_thahar = Some []\<rparr>"
proof -
  have c: "count_versus KEYWORDS_9 KEYWORDS_2 (map tag_text two_markers) = 2"
    by (simp add: two_markers_def blk_def words kw_tests tables)
  have e: "extract_2062_to_2072 two_markers =
     Some \<lparr>ind = 1, temp_ind_32 = 1, d_ijlas = None, d_nyayadhish = Some [],
       d_adesh_miti = None, d_kes_nambar = Some (PList []), d_bishaya = None,
       d_niwedak = Some (PList [NIWEDAK @ [32, 65]]),
       d_wipakshi = Some (PList []), d_prakaran = Some [], d_thahar = Some []\<rparr>"
    apply (simp add: extract_2062_to_2072_def phases_2062_to_2072_def before_parties_two_markers)
    apply (simp add: Let_def two_markers_def blk_def words phases_2062 tables numeral_2_eq_2
        finish_def segment_def seg_init_def seg_text_def seg_tahar_def HOLDING_TOKENS_def
        SECTION_SIGN_def join_prev_def SPACE_def
        cong: by_value)
    done
  show ?thesis using c e by simp
qed



end
